theory Spec2Isabelle
  imports Main "HOL-Library.Multiset"
begin

section \<open>The webhook relay of \<open>process.js\<close>\<close>

text \<open>
  \<open>process.js\<close> is one Express route, \<open>POST /event\<close>, and nine functions behind it.
  The functions talk to two remote platforms: the chat platform through \<open>axios.get\<close> and
  the storage platform through the SDK object \<open>client\<close>. The model keeps the functions as
  they are written and makes the rest explicit:
  \<^item> the storage platform is a store (users, groups, memberships, collaborations) inside the
    record \<open>world\<close>, together with the trace of the mutating SDK requests issued;
  \<^item> the console is a list of structured entries, one constructor per
    \<open>console.log\<close>/\<open>console.error\<close> line of the source;
  \<^item> the response object \<open>res\<close> of the request is the field \<open>response\<close>;
  \<^item> the chat platform is read only: its answers are functions in the record \<open>env\<close>;
  \<^item> a thrown exception or rejected promise is \<open>Inl e\<close>; the world at the moment of the
    throw is returned with it, since the effects before it have happened;
  \<^item> the callbacks of the roster fan-out, which nobody awaits, are tasks in the field
    \<open>pending\<close>: each waits for the answer to one request, and they go on in the order in
    which the answers arrive, which the record \<open>env\<close> gives.
\<close>

subsection \<open>JavaScript values\<close>

datatype error =
    TypeError      \<comment> \<open>a property read on \<open>undefined\<close>\<close>
  | HttpError      \<comment> \<open>\<open>axios.get\<close> rejects: non-2xx status or no answer\<close>
  | BoxError       \<comment> \<open>the storage platform rejects a request\<close>
  | HeadersSent    \<comment> \<open>\<open>ERR_HTTP_HEADERS_SENT\<close>: a body is sent on a response already sent\<close>

type_synonym 'a result = "error + 'a"

text \<open>What \<open>await axios.get(url)\<close> gives: the promise rejects, or resolves to a response
  whose \<open>data\<close> is the second component.\<close>

datatype 'a axios = Rejected | Resolved 'a

text \<open>
  A variable of an \<open>async\<close> function holds either a plain value or a promise that was not
  awaited. \<open>Promise v\<close> is a promise that fulfils with \<open>v\<close>. Reading a field of the promise
  object itself gives \<open>undefined\<close> (\<open>None\<close>); \<open>return p\<close> in an \<open>async\<close> function resolves the
  function's own promise with \<open>p\<close>, so it adopts \<open>p\<close>'s outcome and the caller's \<open>await\<close>
  yields \<open>v\<close>.
\<close>

datatype 'a js_value = Plain 'a | Promise 'a

fun field_of :: "('a \<Rightarrow> 'b) \<Rightarrow> 'a js_value \<Rightarrow> 'b option" where
  "field_of f (Plain v) = Some (f v)"
| "field_of f (Promise v) = None"

fun async_return :: "'a js_value \<Rightarrow> 'a" where
  "async_return (Plain v) = v"
| "async_return (Promise v) = v"

text \<open>\<open>s.split(' ')\<close>: the pieces between single spaces; never the empty array.\<close>

fun split_on :: "char \<Rightarrow> string \<Rightarrow> string list" where
  "split_on c [] = [[]]"
| "split_on c (x # xs) =
     (if x = c then [] # split_on c xs
      else (case split_on c xs of
              [] \<Rightarrow> [[x]]
            | p # ps \<Rightarrow> (x # p) # ps))"

text \<open>The second element of a destructured array, \<open>undefined\<close> when there is none.\<close>

fun second :: "'a list \<Rightarrow> 'a option" where
  "second (a # b # _) = Some b"
| "second _ = None"

text \<open>
  \<open>isNaN(x)\<close> converts \<open>x\<close> to a number first. \<open>undefined\<close> converts to \<open>NaN\<close>; a string
  converts to \<open>NaN\<close> unless, trimmed of white space, it is empty or a numeric literal:
  \<open>0x\<close>/\<open>0o\<close>/\<open>0b\<close> digits, or an optionally signed \<open>Infinity\<close> or decimal literal with
  optional fraction and exponent. Strings are byte lists here, so the white space code
  points of JavaScript appear in their UTF-8 encoding.
\<close>

definition is_ws1 :: "char \<Rightarrow> bool" where
  "is_ws1 a = (a \<in> set [CHR 0x09, CHR 0x0A, CHR 0x0B, CHR 0x0C, CHR 0x0D, CHR 0x20])"

definition is_ws2 :: "char \<Rightarrow> char \<Rightarrow> bool" where
  "is_ws2 a b = (a = CHR 0xC2 \<and> b = CHR 0xA0)"

definition is_ws3 :: "char \<Rightarrow> char \<Rightarrow> char \<Rightarrow> bool" where
  "is_ws3 a b c =
     ([a, b, c] \<in> set
        [[CHR 0xE1, CHR 0x9A, CHR 0x80],
         [CHR 0xE2, CHR 0x80, CHR 0x80], [CHR 0xE2, CHR 0x80, CHR 0x81],
         [CHR 0xE2, CHR 0x80, CHR 0x82], [CHR 0xE2, CHR 0x80, CHR 0x83],
         [CHR 0xE2, CHR 0x80, CHR 0x84], [CHR 0xE2, CHR 0x80, CHR 0x85],
         [CHR 0xE2, CHR 0x80, CHR 0x86], [CHR 0xE2, CHR 0x80, CHR 0x87],
         [CHR 0xE2, CHR 0x80, CHR 0x88], [CHR 0xE2, CHR 0x80, CHR 0x89],
         [CHR 0xE2, CHR 0x80, CHR 0x8A], [CHR 0xE2, CHR 0x80, CHR 0xA8],
         [CHR 0xE2, CHR 0x80, CHR 0xA9], [CHR 0xE2, CHR 0x80, CHR 0xAF],
         [CHR 0xE2, CHR 0x81, CHR 0x9F], [CHR 0xE3, CHR 0x80, CHR 0x80],
         [CHR 0xEF, CHR 0xBB, CHR 0xBF]])"

fun ltrim :: "string \<Rightarrow> string" where
  "ltrim (a # b # c # s) =
     (if is_ws1 a then ltrim (b # c # s)
      else if is_ws2 a b then ltrim (c # s)
      else if is_ws3 a b c then ltrim s
      else a # b # c # s)"
| "ltrim [a, b] =
     (if is_ws1 a then ltrim [b] else if is_ws2 a b then [] else [a, b])"
| "ltrim [a] = (if is_ws1 a then [] else [a])"
| "ltrim [] = []"

text \<open>The same from the right end, on the reversed string.\<close>

fun rtrim_rev :: "string \<Rightarrow> string" where
  "rtrim_rev (c # b # a # s) =
     (if is_ws1 c then rtrim_rev (b # a # s)
      else if is_ws2 b c then rtrim_rev (a # s)
      else if is_ws3 a b c then rtrim_rev s
      else c # b # a # s)"
| "rtrim_rev [c, b] =
     (if is_ws1 c then rtrim_rev [b] else if is_ws2 b c then [] else [c, b])"
| "rtrim_rev [c] = (if is_ws1 c then [] else [c])"
| "rtrim_rev [] = []"

definition trim :: "string \<Rightarrow> string" where
  "trim s = rev (rtrim_rev (rev (ltrim s)))"

definition digits_in :: "string \<Rightarrow> string \<Rightarrow> bool" where
  "digits_in alphabet s = (s \<noteq> [] \<and> list_all (\<lambda>c. c \<in> set alphabet) s)"

definition decimal_digits :: "string \<Rightarrow> bool" where
  "decimal_digits s = digits_in ''0123456789'' s"

fun unsign :: "string \<Rightarrow> string" where
  "unsign (c # s) = (if c = CHR ''+'' then s else if c = CHR ''-'' then s else c # s)"
| "unsign [] = []"

fun exponent_part :: "string \<Rightarrow> bool" where
  "exponent_part [] = True"
| "exponent_part (c # s) =
     (if c = CHR ''e'' then decimal_digits (unsign s)
      else if c = CHR ''E'' then decimal_digits (unsign s)
      else False)"

definition unsigned_decimal :: "string \<Rightarrow> bool" where
  "unsigned_decimal s =
     (if s = ''Infinity'' then True
      else
        (let ds = takeWhile (\<lambda>c. c \<in> set ''0123456789'') s;
             r = dropWhile (\<lambda>c. c \<in> set ''0123456789'') s
         in case r of
              [] \<Rightarrow> ds \<noteq> []
            | c # r' \<Rightarrow>
                (if c = CHR ''.'' then
                   (let fs = takeWhile (\<lambda>c. c \<in> set ''0123456789'') r';
                        r'' = dropWhile (\<lambda>c. c \<in> set ''0123456789'') r'
                    in if ds = [] \<and> fs = [] then False else exponent_part r'')
                 else if ds = [] then False
                 else exponent_part r)))"

fun non_decimal :: "string \<Rightarrow> bool" where
  "non_decimal (z # k # s) =
     (if z \<noteq> CHR ''0'' then False
      else if k \<in> set ''xX'' then digits_in ''0123456789abcdefABCDEF'' s
      else if k \<in> set ''oO'' then digits_in ''01234567'' s
      else if k \<in> set ''bB'' then digits_in ''01'' s
      else False)"
| "non_decimal _ = False"

definition numeric_string :: "string \<Rightarrow> bool" where
  "numeric_string s =
     (let t = trim s
      in if t = [] then True
         else if non_decimal t then True
         else unsigned_decimal (unsign t))"

fun isNaN :: "string option \<Rightarrow> bool" where
  "isNaN None = True"
| "isNaN (Some s) = (\<not> numeric_string s)"

subsection \<open>The two platforms\<close>

text \<open>A chat user as \<open>users.info\<close> returns it: \<open>user.name\<close>, \<open>user.is_bot\<close> and
  \<open>user.profile.email\<close> (\<open>None\<close> when the profile has no email). Every user object of the
  chat platform has a \<open>profile\<close>, so reading \<open>user.profile\<close> itself does not fail.\<close>

record slack_user =
  name :: string
  is_bot :: bool
  email :: "string option"

text \<open>Storage-platform objects. \<open>g.id\<close> and \<open>g.name\<close> of a group are \<open>group_id\<close> and
  \<open>group_name\<close>; \<open>uid\<close> is the \<open>id\<close> of a user and \<open>login\<close> the email address of the
  account; a membership carries \<open>m.id\<close> and \<open>m.user\<close>, and the group it belongs to. The
  platform's ids are numbers here; the code only compares them and prints them.\<close>

record box_user =
  uid :: nat
  login :: string

record box_group =
  group_id :: nat
  group_name :: string

record box_membership =
  membership_id :: nat
  m_user :: box_user
  m_group_id :: nat

datatype role = MEMBER | VIEWER

record collaboration =
  c_group_id :: nat
  c_item_id :: "string option"
  c_role :: role
  c_item_type :: string
  c_as_user :: "nat option"

text \<open>The mutating requests the SDK sends, in the order they are issued.\<close>

datatype box_request =
    CreateGroup string string string
  | AddUser nat nat role
  | RemoveMembership nat
  | AsUser nat
  | CreateCollaboration collaboration

datatype log_entry =
    LogUrlVerification                 \<comment> \<open>Received URL verification challenge\<close>
  | LogNoUserData                      \<comment> \<open>No user data found\<close>
  | LogReceived string string          \<comment> \<open>Received \<open>event\<close> for \<open>user.name\<close>\<close>
  | LogGetGroup string                 \<comment> \<open>Get group for channel \<open>channelId\<close>\<close>
  | LogSyncing string nat              \<comment> \<open>Syncing channel \<open>channelId\<close> to group \<open>groupId\<close>\<close>
  | LogAdding string nat               \<comment> \<open>Adding \<open>email\<close> to group \<open>groupId\<close>\<close>
  | LogUserNotFound string             \<comment> \<open>User \<open>email\<close> not found\<close>
  | LogAlreadyMember string nat        \<comment> \<open>User \<open>email\<close> is already a member of group \<open>groupId\<close>\<close>
  | LogAdded string nat                \<comment> \<open>Added \<open>email\<close> to group \<open>groupId\<close>\<close>
  | LogRemoving string nat             \<comment> \<open>Removing \<open>email\<close> from group \<open>groupId\<close>\<close>
  | LogRemoved string nat              \<comment> \<open>Removed \<open>email\<close> from group \<open>groupId\<close>\<close>
  | LogNotMember string nat            \<comment> \<open>User \<open>email\<close> is not a member of group \<open>groupId\<close>\<close>

text \<open>What \<open>res.send\<close> is given: a string, the object \<open>{ challenge }\<close>, or nothing.\<close>

datatype payload = Text string | Challenge "string option" | Empty

text \<open>
  A callback of \<open>response.data.members.forEach\<close> (lines 119 to 124) that has been started,
  by the \<open>await\<close> it is suspended at. Each carries the \<open>groupId\<close> of its closure.
\<close>

datatype task =
    AwaitSlackUser nat string        \<comment> \<open>line 120: \<open>await getSlackUser(userId)\<close>\<close>
  | AwaitUsers nat string            \<comment> \<open>line 133, in \<open>addGroupUser\<close> for \<open>email\<close>: \<open>await ...getUsers\<close>\<close>
  | AwaitMemberships nat string nat  \<comment> \<open>line 140: \<open>await ...getGroupMemberships(userId)\<close>\<close>
  | AwaitAddUser nat string nat      \<comment> \<open>line 148: \<open>await client.groups.addUser(...)\<close>\<close>
  | Settled                          \<comment> \<open>the promise of the callback is settled\<close>

text \<open>
  The state a request runs in: the store of the storage platform (\<open>enterprise_users\<close>,
  \<open>groups\<close>, \<open>memberships\<close>, \<open>collaborations\<close>), the user the shared client acts as, the
  requests sent so far, the console, the response that has reached the client (status and
  body, \<open>None\<close> while nothing was sent), the rejections of promises nobody awaits, and
  the callbacks that were started and are not awaited.
\<close>

record world =
  enterprise_users :: "box_user list"
  groups :: "box_group list"
  memberships :: "box_membership list"
  collaborations :: "collaboration list"
  acting_as :: "nat option"
  requests :: "box_request list"
  console :: "log_entry list"
  response :: "(nat \<times> payload) option"
  unhandled :: "error list"
  pending :: "task list"

text \<open>
  What does not change while a request is served: the configured secret
  (\<open>slackConfig.verificationToken\<close>), the chat platform's answers to \<open>users.info\<close> and to
  \<open>conversations.members\<close> with a given \<open>limit\<close> (the \<open>data\<close> of the response, \<open>None\<close> when it
  lacks the field read), and the storage platform's two decisions the store does not
  determine: which users a \<open>filter_term\<close> matches, and whether a collaboration request is
  accepted. \<open>arrivals\<close> is the order in which the answers to the requests of the suspended
  callbacks reach the process: each entry is the position, in \<open>pending\<close>, of the callback
  whose answer arrives next.
\<close>

record env =
  verificationToken :: string
  users_info :: "string \<Rightarrow> slack_user option axios"
  conversations_members :: "string \<Rightarrow> nat \<Rightarrow> string list option axios"
  filter_matches :: "string \<Rightarrow> box_user \<Rightarrow> bool"
  collaboration_accepted :: "collaboration \<Rightarrow> bool"
  arrivals :: "nat list"

definition log :: "log_entry \<Rightarrow> world \<Rightarrow> world" where
  "log e w = w\<lparr>console := console w @ [e]\<rparr>"

definition request :: "box_request \<Rightarrow> world \<Rightarrow> world" where
  "request r w = w\<lparr>requests := requests w @ [r]\<rparr>"

definition fresh_id :: "nat list \<Rightarrow> nat" where
  "fresh_id ids = Suc (foldr max ids 0)"

subsubsection \<open>The storage SDK\<close>

text \<open>
  The calls of \<open>client\<close> the code makes, against the store. The platform answers every
  call; it rejects \<open>addUser\<close> for a user it does not know and a collaboration it does not
  accept. A network that fails in the middle of a request is outside the model.
\<close>

text \<open>\<open>client.groups.getAll()\<close>: the \<open>entries\<close> of the answer.\<close>

definition groups_getAll :: "world \<Rightarrow> box_group list" where
  "groups_getAll w = groups w"

text \<open>\<open>client.groups.create(name, {description, invitability_level})\<close>: the platform stores
  a group under an id of its choosing and the promise fulfils with it.\<close>

definition groups_create :: "string \<Rightarrow> string \<Rightarrow> string \<Rightarrow> world \<Rightarrow> box_group \<times> world" where
  "groups_create nm description invitability w =
     (let g = \<lparr>group_id = fresh_id (map group_id (groups w)), group_name = nm\<rparr>
      in (g, (request (CreateGroup nm description invitability) w)\<lparr>groups := groups w @ [g]\<rparr>))"

text \<open>\<open>client.enterprise.getUsers({filter_term})\<close>: every user when the term is
  \<open>undefined\<close>, the matching ones otherwise.\<close>

definition enterprise_getUsers :: "env \<Rightarrow> string option \<Rightarrow> world \<Rightarrow> box_user list" where
  "enterprise_getUsers E filter_term w =
     (case filter_term of
        None \<Rightarrow> enterprise_users w
      | Some t \<Rightarrow> filter (filter_matches E t) (enterprise_users w))"

definition users_getGroupMemberships :: "nat \<Rightarrow> world \<Rightarrow> box_membership list" where
  "users_getGroupMemberships userId w =
     filter (\<lambda>m. uid (m_user m) = userId) (memberships w)"

definition groups_getMemberships :: "nat \<Rightarrow> world \<Rightarrow> box_membership list" where
  "groups_getMemberships groupId w =
     filter (\<lambda>m. m_group_id m = groupId) (memberships w)"

text \<open>\<open>client.groups.addUser(groupId, userId, {role})\<close>: rejected for an unknown user.\<close>

definition groups_addUser :: "nat \<Rightarrow> nat \<Rightarrow> role \<Rightarrow> world \<Rightarrow> unit result \<times> world" where
  "groups_addUser groupId userId r w =
     (let w' = request (AddUser groupId userId r) w
      in case find (\<lambda>u. uid u = userId) (enterprise_users w) of
           None \<Rightarrow> (Inl BoxError, w')
         | Some u \<Rightarrow>
             (Inr (),
              w'\<lparr>memberships := memberships w @
                    [\<lparr>membership_id = fresh_id (map membership_id (memberships w)),
                      m_user = u, m_group_id = groupId\<rparr>]\<rparr>))"

definition groups_removeMembership :: "nat \<Rightarrow> world \<Rightarrow> world" where
  "groups_removeMembership membershipId w =
     (request (RemoveMembership membershipId) w)
       \<lparr>memberships := filter (\<lambda>m. membership_id m \<noteq> membershipId) (memberships w)\<rparr>"

text \<open>\<open>client.asUser(id)\<close> changes the one shared client.\<close>

definition asUser :: "nat \<Rightarrow> world \<Rightarrow> world" where
  "asUser userId w = (request (AsUser userId) w)\<lparr>acting_as := Some userId\<rparr>"

definition collaborations_createWithGroupID ::
  "env \<Rightarrow> nat \<Rightarrow> string option \<Rightarrow> role \<Rightarrow> string \<Rightarrow> world \<Rightarrow> unit result \<times> world" where
  "collaborations_createWithGroupID E groupId itemId r itemType w =
     (let c = \<lparr>c_group_id = groupId, c_item_id = itemId, c_role = r,
                c_item_type = itemType, c_as_user = acting_as w\<rparr>;
          w' = request (CreateCollaboration c) w
      in if collaboration_accepted E c
         then (Inr (), w'\<lparr>collaborations := collaborations w @ [c]\<rparr>)
         else (Inl BoxError, w'))"

subsubsection \<open>The response object\<close>

text \<open>
  \<open>res.status(st).send(body)\<close>. One response reaches the client. On a response already
  sent, Express sets a header for any body and Node throws \<open>ERR_HTTP_HEADERS_SENT\<close>; with no
  body nothing is set and the call does nothing.
\<close>

definition res_send :: "nat \<Rightarrow> payload \<Rightarrow> world \<Rightarrow> unit result \<times> world" where
  "res_send st body w =
     (case response w of
        None \<Rightarrow> (Inr (), w\<lparr>response := Some (st, body)\<rparr>)
      | Some _ \<Rightarrow> (if body = Empty then (Inr (), w) else (Inl HeadersSent, w)))"

subsection \<open>The functions of \<open>process.js\<close>\<close>

text \<open>Lines 57 to 67. \<open>axios.get\<close> rejects on a non-2xx answer; an answer without
  \<open>data.user\<close> is logged and the function returns \<open>undefined\<close>.\<close>

definition getSlackUser :: "env \<Rightarrow> string \<Rightarrow> world \<Rightarrow> slack_user option result \<times> world" where
  "getSlackUser E userId w =
     (case users_info E userId of
        Rejected \<Rightarrow> (Inl HttpError, w)
      | Resolved None \<Rightarrow> (Inr None, log LogNoUserData w)
      | Resolved (Some u) \<Rightarrow> (Inr (Some u), w))"

text \<open>Lines 92 to 107. The body of \<open>getGroup\<close> up to \<open>return group\<close>: the value of the variable \<open>group\<close>,
  which is the promise of \<open>client.groups.create\<close> when no group of that name is listed.\<close>

definition getGroup_body :: "string \<Rightarrow> world \<Rightarrow> box_group js_value \<times> world" where
  "getGroup_body channelId w =
     (let w1 = log (LogGetGroup channelId) w;
          groupName = ''slack-'' @ channelId
      in case filter (\<lambda>g. group_name g = groupName) (groups_getAll w1) of
           g # _ \<Rightarrow> (Plain g, w1)
         | [] \<Rightarrow>
             (let (g, w2) = groups_create groupName ''Slack channel collaboration group''
                              ''all_managed_users'' w1
              in (Promise g, w2)))"

text \<open>\<open>await getGroup(channelId)\<close>, as \<open>syncSlackUsers\<close> and \<open>handleCommand\<close> write it:
  the promise of the \<open>async\<close> function is resolved with the returned value.\<close>

definition getGroup :: "string \<Rightarrow> world \<Rightarrow> box_group \<times> world" where
  "getGroup channelId w =
     (let (v, w') = getGroup_body channelId w in (async_return v, w'))"

text \<open>Lines 130 to 153. \<open>users.entries[0]\<close> is the first user found;
  \<open>existingMembership\<close> is the first membership of that user whose \<open>user.id\<close> is the
  user's id.\<close>

definition addGroupUser :: "env \<Rightarrow> nat \<Rightarrow> string \<Rightarrow> world \<Rightarrow> unit result \<times> world" where
  "addGroupUser E groupId eml w =
     (let w1 = log (LogAdding eml groupId) w
      in case enterprise_getUsers E (Some eml) w1 of
           [] \<Rightarrow> (Inr (), log (LogUserNotFound eml) w1)
         | u # _ \<Rightarrow>
             (let userId = uid u
              in case filter (\<lambda>m. uid (m_user m) = userId)
                        (users_getGroupMemberships userId w1) of
                   existingMembership # _ \<Rightarrow> (Inr (), log (LogAlreadyMember eml groupId) w1)
                 | [] \<Rightarrow>
                     (case groups_addUser groupId userId MEMBER w1 of
                        (Inl e, w2) \<Rightarrow> (Inl e, w2)
                      | (Inr _, w2) \<Rightarrow> (Inr (), log (LogAdded eml groupId) w2))))"

text \<open>Lines 158 to 170.\<close>

definition removeGroupUser :: "nat \<Rightarrow> string \<Rightarrow> world \<Rightarrow> unit result \<times> world" where
  "removeGroupUser groupId eml w =
     (let w1 = log (LogRemoving eml groupId) w
      in case filter (\<lambda>m. login (m_user m) = eml) (groups_getMemberships groupId w1) of
           membership # _ \<Rightarrow>
             (Inr (), log (LogRemoved eml groupId)
                        (groups_removeMembership (membership_id membership) w1))
         | [] \<Rightarrow> (Inr (), log (LogNotMember eml groupId) w1))"

text \<open>
  Lines 112 to 125. \<open>response.data.members.forEach(async (userId) => ...)\<close> starts one
  callback for each member, in the order of the list. Each runs to its first \<open>await\<close>,
  which is the request of \<open>getSlackUser\<close>, and is suspended there; \<open>forEach\<close> returns and
  \<open>syncChannelToGroup\<close> with it. Nobody awaits the callbacks: the response of
  \<open>handleEventCallback\<close> is sent while their requests are in flight.
\<close>

definition forEach_member :: "nat \<Rightarrow> string list \<Rightarrow> world \<Rightarrow> world" where
  "forEach_member groupId members w =
     w\<lparr>pending := pending w @ map (AwaitSlackUser groupId) members\<rparr>"

definition syncChannelToGroup :: "env \<Rightarrow> string \<Rightarrow> nat \<Rightarrow> world \<Rightarrow> unit result \<times> world" where
  "syncChannelToGroup E channelId groupId w =
     (let w1 = log (LogSyncing channelId groupId) w
      in case conversations_members E channelId 100 of
           Rejected \<Rightarrow> (Inl HttpError, w1)
         | Resolved None \<Rightarrow> (Inl TypeError, w1)
         | Resolved (Some members) \<Rightarrow> (Inr (), forEach_member groupId members w1))"

text \<open>
  A suspended callback goes on when the answer to its request arrives, and runs to its
  next \<open>await\<close> or to its end. The request and its answer are one step: the store is read
  or changed at the moment the answer reaches the process. After the lookup (line 120) the
  callback reads \<open>user.profile\<close>, which throws when the lookup gave no user, and calls
  \<open>addGroupUser\<close> for a user with an email that is no bot; \<open>addGroupUser\<close> writes its first
  line and is suspended at \<open>getUsers\<close> (lines 131 and 133), then at \<open>getGroupMemberships\<close>
  (line 140), then at \<open>addUser\<close> (line 148). \<open>Inl e\<close> is the rejection of the callback.
\<close>

fun member_callback :: "env \<Rightarrow> task \<Rightarrow> world \<Rightarrow> task result \<times> world" where
  "member_callback E (AwaitSlackUser groupId userId) w =
     (case getSlackUser E userId w of
        (Inl e, w1) \<Rightarrow> (Inl e, w1)
      | (Inr None, w1) \<Rightarrow> (Inl TypeError, w1)
      | (Inr (Some user), w1) \<Rightarrow>
          (case email user of
             None \<Rightarrow> (Inr Settled, w1)
           | Some eml \<Rightarrow>
               (if eml \<noteq> [] \<and> \<not> is_bot user
                then (Inr (AwaitUsers groupId eml), log (LogAdding eml groupId) w1)
                else (Inr Settled, w1))))"
| "member_callback E (AwaitUsers groupId eml) w =
     (case enterprise_getUsers E (Some eml) w of
        [] \<Rightarrow> (Inr Settled, log (LogUserNotFound eml) w)
      | u # _ \<Rightarrow> (Inr (AwaitMemberships groupId eml (uid u)), w))"
| "member_callback E (AwaitMemberships groupId eml userId) w =
     (case filter (\<lambda>m. uid (m_user m) = userId) (users_getGroupMemberships userId w) of
        existingMembership # _ \<Rightarrow> (Inr Settled, log (LogAlreadyMember eml groupId) w)
      | [] \<Rightarrow> (Inr (AwaitAddUser groupId eml userId), w))"
| "member_callback E (AwaitAddUser groupId eml userId) w =
     (case groups_addUser groupId userId MEMBER w of
        (Inl e, w2) \<Rightarrow> (Inl e, w2)
      | (Inr _, w2) \<Rightarrow> (Inr Settled, log (LogAdded eml groupId) w2))"
| "member_callback E Settled w = (Inr Settled, w)"

text \<open>
  \<open>process.js\<close> installs no handler for unhandled rejections, and Node (from version 15)
  ends the process on the first one. A process that has ended runs nothing more; the
  requests then in flight stay in \<open>pending\<close>, and the model does not say what the platforms
  do with them.
\<close>

definition exited :: "world \<Rightarrow> bool" where
  "exited w = (unhandled w \<noteq> [])"

text \<open>The answer to the request of the callback at position \<open>i\<close> arrives.\<close>

definition answer :: "env \<Rightarrow> nat \<Rightarrow> world \<Rightarrow> world" where
  "answer E i w =
     (if exited w then w
      else if i < length (pending w) then
        (case member_callback E (pending w ! i) w of
           (Inl e, w') \<Rightarrow>
             w'\<lparr>pending := (pending w)[i := Settled], unhandled := unhandled w' @ [e]\<rparr>
         | (Inr t, w') \<Rightarrow> w'\<lparr>pending := (pending w)[i := t]\<rparr>)
      else w)"

fun run_callbacks :: "env \<Rightarrow> nat list \<Rightarrow> world \<Rightarrow> world" where
  "run_callbacks E [] w = w"
| "run_callbacks E (i # rest) w = run_callbacks E rest (answer E i w)"

text \<open>What the process has done once the answers of \<open>arrivals\<close> have come in.\<close>

definition event_loop :: "env \<Rightarrow> world \<Rightarrow> world" where
  "event_loop E w = run_callbacks E (arrivals E) w"

text \<open>
  \<open>addGroupUser\<close> as the callback runs it, when no other callback gets in between: from
  the task it is suspended at to its end, at most \<open>n\<close> answers.
\<close>

fun to_end :: "env \<Rightarrow> nat \<Rightarrow> task \<Rightarrow> world \<Rightarrow> unit result \<times> world" where
  "to_end E 0 t w = (Inr (), w)"
| "to_end E (Suc n) t w =
     (case member_callback E t w of
        (Inl e, w') \<Rightarrow> (Inl e, w')
      | (Inr t', w') \<Rightarrow> to_end E n t' w')"

text \<open>Lines 73 to 87. The template string of the first line reads \<open>user.name\<close>, which
  throws when the lookup gave no user.\<close>

definition syncSlackUsers ::
  "env \<Rightarrow> slack_user option \<Rightarrow> string \<Rightarrow> string \<Rightarrow> world \<Rightarrow> unit result \<times> world" where
  "syncSlackUsers E user event channelId w =
     (case user of
        None \<Rightarrow> (Inl TypeError, w)
      | Some u \<Rightarrow>
          (let w1 = log (LogReceived event (name u)) w;
               (group, w2) = getGroup channelId w1
           in if is_bot u then syncChannelToGroup E channelId (group_id group) w2
              else (case email u of
                      None \<Rightarrow> (Inr (), w2)
                    | Some eml \<Rightarrow>
                        (if eml = [] then (Inr (), w2)
                         else if event = ''member_joined_channel''
                           then addGroupUser E (group_id group) eml w2
                         else if event = ''member_left_channel''
                           then removeGroupUser (group_id group) eml w2
                         else (Inr (), w2)))))"

text \<open>The request body, after \<open>express.json()\<close> or \<open>express.urlencoded()\<close>: always an
  object; a field that is read only into a template string or a comparison is a string
  (\<open>undefined\<close> reads as the string of that name).\<close>

record slack_event =
  ev_type :: string
  ev_channel :: string
  ev_user :: string

record body =
  token :: "string option"
  body_type :: "string option"
  challenge :: "string option"
  event :: "slack_event option"
  command :: "string option"
  channel_id :: string
  user_id :: string
  body_text :: "string option"

text \<open>Lines 36 to 39 and 44 to 52.\<close>

definition handleUrlVerification :: "body \<Rightarrow> world \<Rightarrow> unit result \<times> world" where
  "handleUrlVerification req w =
     res_send 200 (Challenge (challenge req)) (log LogUrlVerification w)"

definition handleEventCallback :: "env \<Rightarrow> body \<Rightarrow> world \<Rightarrow> unit result \<times> world" where
  "handleEventCallback E req w =
     (case event req of
        None \<Rightarrow> (Inl TypeError, w)
      | Some ev \<Rightarrow>
          (case getSlackUser E (ev_user ev) w of
             (Inl e, w1) \<Rightarrow> (Inl e, w1)
           | (Inr user, w1) \<Rightarrow>
               (case syncSlackUsers E user (ev_type ev) (ev_channel ev) w1 of
                  (Inl e, w2) \<Rightarrow> (Inl e, w2)
                | (Inr _, w2) \<Rightarrow> res_send 200 Empty w2)))"

text \<open>Lines 176 to 214. \<open>invalid_input\<close> is the condition of the \<open>if\<close> of line 181; the
  first piece of a split string always exists, the second may not. The \<open>try\<close> block covers
  the collaboration call and the success response, so an exception of either is answered
  by the \<open>catch\<close> block.\<close>

definition invalid_input :: "string \<Rightarrow> string option \<Rightarrow> bool" where
  "invalid_input itemType itemId =
     (if itemType \<in> set [''file'', ''folder''] then isNaN itemId else True)"

definition handleCommand :: "env \<Rightarrow> body \<Rightarrow> world \<Rightarrow> unit result \<times> world" where
  "handleCommand E req w =
     (case body_text req of
        None \<Rightarrow> (Inl TypeError, w)
      | Some txt \<Rightarrow>
          (let channelId = channel_id req;
               userId = user_id req;
               itemType = hd (split_on CHR '' '' txt);
               itemId = second (split_on CHR '' '' txt)
           in case (if invalid_input itemType itemId
                    then res_send 200 (Text ''Invalid input. Example usage: /boxadd file 123456'') w
                    else (Inr (), w)) of
                (Inl e, w0) \<Rightarrow> (Inl e, w0)
              | (Inr _, w0) \<Rightarrow>
                  (let (group, w1) = getGroup channelId w0
                   in case getSlackUser E userId w1 of
                        (Inl e, w2) \<Rightarrow> (Inl e, w2)
                      | (Inr None, w2) \<Rightarrow> (Inl TypeError, w2)
                      | (Inr (Some slackUser), w2) \<Rightarrow>
                          (case enterprise_getUsers E (email slackUser) w2 of
                             [] \<Rightarrow>
                               res_send 200
                                 (Text (''Could not find a Box user with email '' @
                                        (case email slackUser of
                                           None \<Rightarrow> ''undefined''
                                         | Some eml \<Rightarrow> eml))) w2
                           | boxUser # _ \<Rightarrow>
                               (let w3 = asUser (uid boxUser) w2
                                in case collaborations_createWithGroupID E (group_id group)
                                          itemId VIEWER itemType w3 of
                                     (Inl e, w4) \<Rightarrow>
                                       res_send 200 (Text ''Could not provide all users access'') w4
                                   | (Inr _, w4) \<Rightarrow>
                                       (case res_send 200
                                               (Text ''Provided all users with access to item'') w4 of
                                          (Inl e, w5) \<Rightarrow>
                                            res_send 200
                                              (Text ''Could not provide all users access'') w5
                                        | (Inr _, w5) \<Rightarrow> (Inr (), w5)))))))"

text \<open>
  Lines 17 to 31. The route \<open>app.post('/event', ...)\<close>. \<open>!req.body\<close> never holds behind the two body
  parsers. The two \<open>async\<close> handlers are called without \<open>await\<close>: the result is the exception
  or rejection that escapes, if any.
\<close>

definition post_event :: "env \<Rightarrow> body \<Rightarrow> world \<Rightarrow> unit result \<times> world" where
  "post_event E req w =
     (case (if token req = Some (verificationToken E) then (Inr (), w)
            else res_send 400 (Text ''Slack Verification Failed'') w) of
        (Inl e, w0) \<Rightarrow> (Inl e, w0)
      | (Inr _, w0) \<Rightarrow>
          (if body_type req = Some ''url_verification'' then handleUrlVerification req w0
           else if body_type req = Some ''event_callback'' then handleEventCallback E req w0
           else if command req = Some ''/boxadd'' then handleCommand E req w0
           else res_send 400 Empty w0))"

subsection \<open>Reading the traces\<close>

text \<open>
  \<open>addGroupUser\<close> and \<open>removeGroupUser\<close> each write one line when they are entered, and no
  other function writes it: the \<open>Adding\<close> lines of the console are the calls of
  \<open>addGroupUser\<close> with their arguments, the \<open>Removing\<close> lines those of \<open>removeGroupUser\<close>.
  The collaboration requests are read off the request trace.
\<close>

fun add_call :: "log_entry \<Rightarrow> (string \<times> nat) option" where
  "add_call (LogAdding eml groupId) = Some (eml, groupId)"
| "add_call _ = None"

definition add_calls :: "log_entry list \<Rightarrow> (string \<times> nat) list" where
  "add_calls l = List.map_filter add_call l"

text \<open>The line a call of \<open>addGroupUser\<close> ends with, when it is not rejected: the user
  is not found, is a member already, or was added.\<close>

fun add_outcome :: "log_entry \<Rightarrow> string option" where
  "add_outcome (LogUserNotFound eml) = Some eml"
| "add_outcome (LogAlreadyMember eml groupId) = Some eml"
| "add_outcome (LogAdded eml groupId) = Some eml"
| "add_outcome _ = None"

definition add_outcomes :: "log_entry list \<Rightarrow> string list" where
  "add_outcomes l = List.map_filter add_outcome l"

fun remove_call :: "log_entry \<Rightarrow> (string \<times> nat) option" where
  "remove_call (LogRemoving eml groupId) = Some (eml, groupId)"
| "remove_call _ = None"

definition remove_calls :: "log_entry list \<Rightarrow> (string \<times> nat) list" where
  "remove_calls l = List.map_filter remove_call l"

fun collaboration_call :: "box_request \<Rightarrow> collaboration option" where
  "collaboration_call (CreateCollaboration c) = Some c"
| "collaboration_call _ = None"

definition collaboration_calls :: "box_request list \<Rightarrow> collaboration list" where
  "collaboration_calls l = List.map_filter collaboration_call l"

text \<open>The email under which a member of the roster is a non-bot user with an email:
  the lookup answers with a user, the user is no bot and the profile has a non-empty
  email.\<close>

definition roster_email :: "env \<Rightarrow> string \<Rightarrow> string option" where
  "roster_email E userId =
     (case users_info E userId of
        Rejected \<Rightarrow> None
      | Resolved None \<Rightarrow> None
      | Resolved (Some u) \<Rightarrow>
          (if is_bot u then None
           else (case email u of None \<Rightarrow> None | Some eml \<Rightarrow> if eml = [] then None else Some eml)))"

text \<open>The calls of \<open>addGroupUser\<close> a suspended callback has still to begin, and those it
  has still to end.\<close>

fun calls_to_come :: "env \<Rightarrow> task \<Rightarrow> (string \<times> nat) list" where
  "calls_to_come E (AwaitSlackUser groupId userId) =
     (case roster_email E userId of None \<Rightarrow> [] | Some eml \<Rightarrow> [(eml, groupId)])"
| "calls_to_come E _ = []"

fun ends_to_come :: "env \<Rightarrow> task \<Rightarrow> string list" where
  "ends_to_come E (AwaitSlackUser groupId userId) =
     (case roster_email E userId of None \<Rightarrow> [] | Some eml \<Rightarrow> [eml])"
| "ends_to_come E (AwaitUsers groupId eml) = [eml]"
| "ends_to_come E (AwaitMemberships groupId eml userId) = [eml]"
| "ends_to_come E (AwaitAddUser groupId eml userId) = [eml]"
| "ends_to_come E Settled = []"

text \<open>The same, added up over the callbacks that are suspended.\<close>

definition due_calls :: "env \<Rightarrow> task list \<Rightarrow> (string \<times> nat) multiset" where
  "due_calls E ts = mset (concat (map (calls_to_come E) ts))"

definition due_ends :: "env \<Rightarrow> task list \<Rightarrow> string multiset" where
  "due_ends E ts = mset (concat (map (ends_to_come E) ts))"

text \<open>Everything a request leaves behind except the response.\<close>

definition effects :: "world \<Rightarrow> world" where
  "effects w = w\<lparr>response := None\<rparr>"

text \<open>The requests the route hands to \<open>handleCommand\<close> whose text fails the check.\<close>

definition usage_error :: "body \<Rightarrow> bool" where
  "usage_error req =
     (if body_type req = Some ''url_verification'' then False
      else if body_type req = Some ''event_callback'' then False
      else if command req = Some ''/boxadd'' then
        (case body_text req of
           None \<Rightarrow> False
         | Some txt \<Rightarrow> invalid_input (hd (split_on CHR '' '' txt)) (second (split_on CHR '' '' txt)))
      else False)"

text \<open>The collaboration request \<open>handleCommand\<close> sends for a text \<open>txt\<close> when the storage
  user found has the id \<open>boxUserId\<close>: the mirror group of the channel, the two tokens of
  the text, the role \<open>VIEWER\<close>, sent as that user.\<close>

definition requested :: "body \<Rightarrow> string \<Rightarrow> nat \<Rightarrow> world \<Rightarrow> collaboration" where
  "requested req txt boxUserId w =
     \<lparr>c_group_id = group_id (fst (getGroup (channel_id req) w)),
      c_item_id = second (split_on CHR '' '' txt), c_role = VIEWER,
      c_item_type = hd (split_on CHR '' '' txt), c_as_user = Some boxUserId\<rparr>"

subsection \<open>A small enterprise and workspace\<close>

definition alice :: slack_user where
  "alice = \<lparr>name = ''alice'', is_bot = False, email = Some ''alice@example.com''\<rparr>"

definition bob :: slack_user where
  "bob = \<lparr>name = ''bob'', is_bot = False, email = Some ''bob@example.com''\<rparr>"

definition carol :: slack_user where
  "carol = \<lparr>name = ''carol'', is_bot = False, email = None\<rparr>"

definition syncbot :: slack_user where
  "syncbot = \<lparr>name = ''syncbot'', is_bot = True, email = None\<rparr>"

text \<open>\<open>U1\<close>, \<open>U2\<close>, \<open>U3\<close> and \<open>B1\<close> are known to the chat platform; for \<open>U8\<close> the request
  fails, for any other id the answer carries no user. Channel \<open>C1\<close> has five members, one
  of them unknown; \<open>C2\<close> has three, one of them \<open>U8\<close>; the four members of \<open>C3\<close> are all
  known. The storage platform matches a filter term against the login and knows the item
  \<open>123456\<close> only. The answers for the callbacks arrive in turn, in the order of the
  list.\<close>

definition env0 :: env where
  "env0 =
     \<lparr>verificationToken = ''secret'',
      users_info = (\<lambda>i. if i = ''U1'' then Resolved (Some alice)
                        else if i = ''U2'' then Resolved (Some bob)
                        else if i = ''U3'' then Resolved (Some carol)
                        else if i = ''B1'' then Resolved (Some syncbot)
                        else if i = ''U8'' then Rejected
                        else Resolved None),
      conversations_members =
        (\<lambda>c n. if c = ''C1'' then Resolved (Some (take n [''U1'', ''B1'', ''U9'', ''U3'', ''U2'']))
               else if c = ''C2'' then Resolved (Some (take n [''U1'', ''U8'', ''U2'']))
               else if c = ''C3'' then Resolved (Some (take n [''U1'', ''B1'', ''U3'', ''U2'']))
               else Resolved None),
      filter_matches = (\<lambda>t u. login u = t),
      collaboration_accepted = (\<lambda>c. c_item_id c = Some ''123456''),
      arrivals = [0, 1, 2, 3, 0, 1, 2, 3, 0, 1, 2, 3, 0, 1, 2, 3]\<rparr>"

text \<open>The same platforms with the answers for the callbacks arriving out of turn.\<close>

definition env3 :: env where
  "env3 = env0\<lparr>arrivals := [3, 0, 1, 3, 0, 2, 3, 0, 3, 0]\<rparr>"

definition box_alice :: box_user where
  "box_alice = \<lparr>uid = 11, login = ''alice@example.com''\<rparr>"

definition box_bob :: box_user where
  "box_bob = \<lparr>uid = 12, login = ''bob@example.com''\<rparr>"

text \<open>An enterprise with two users and no group yet.\<close>

definition world0 :: world where
  "world0 =
     \<lparr>enterprise_users = [box_alice, box_bob], groups = [], memberships = [],
      collaborations = [], acting_as = None, requests = [], console = [],
      response = None, unhandled = [], pending = []\<rparr>"

text \<open>The same enterprise with the mirror groups of \<open>C1\<close> and \<open>C2\<close>; alice is a member of
  the second only.\<close>

definition world1 :: world where
  "world1 =
     world0
       \<lparr>groups := [\<lparr>group_id = 1, group_name = ''slack-C1''\<rparr>,
                   \<lparr>group_id = 2, group_name = ''slack-C2''\<rparr>],
        memberships := [\<lparr>membership_id = 1, m_user = box_alice, m_group_id = 2\<rparr>]\<rparr>"

definition event_request :: "string \<Rightarrow> string \<Rightarrow> string \<Rightarrow> body" where
  "event_request ty ch us =
     \<lparr>token = Some ''secret'', body_type = Some ''event_callback'', challenge = None,
      event = Some \<lparr>ev_type = ty, ev_channel = ch, ev_user = us\<rparr>, command = None,
      channel_id = ''undefined'', user_id = ''undefined'', body_text = None\<rparr>"

definition command_request :: "string \<Rightarrow> string \<Rightarrow> string \<Rightarrow> body" where
  "command_request ch us txt =
     \<lparr>token = Some ''secret'', body_type = None, challenge = None, event = None,
      command = Some ''/boxadd'', channel_id = ch, user_id = us, body_text = Some txt\<rparr>"

section \<open>Lemmas about the functions\<close>

lemma split_on_not_Nil: "split_on c s \<noteq> []"
  by (induction s) (auto split: list.splits)

lemma log_simps [simp]:
  "console (log e w) = console w @ [e]" "groups (log e w) = groups w"
  "memberships (log e w) = memberships w" "requests (log e w) = requests w"
  "response (log e w) = response w" "enterprise_users (log e w) = enterprise_users w"
  "acting_as (log e w) = acting_as w" "collaborations (log e w) = collaborations w"
  "unhandled (log e w) = unhandled w" "pending (log e w) = pending w"
  by (simp_all add: log_def)

lemma request_simps [simp]:
  "console (request r w) = console w" "groups (request r w) = groups w"
  "memberships (request r w) = memberships w" "requests (request r w) = requests w @ [r]"
  "response (request r w) = response w" "enterprise_users (request r w) = enterprise_users w"
  "acting_as (request r w) = acting_as w" "collaborations (request r w) = collaborations w"
  "unhandled (request r w) = unhandled w" "pending (request r w) = pending w"
  by (simp_all add: request_def)

lemma getGroup_eq:
  "getGroup c w =
     (case filter (\<lambda>g. group_name g = ''slack-'' @ c) (groups w) of
        g # _ \<Rightarrow> (g, log (LogGetGroup c) w)
      | [] \<Rightarrow>
          (\<lparr>group_id = fresh_id (map group_id (groups w)), group_name = ''slack-'' @ c\<rparr>,
           (request (CreateGroup (''slack-'' @ c) ''Slack channel collaboration group''
              ''all_managed_users'') (log (LogGetGroup c) w))
             \<lparr>groups := groups w @
                [\<lparr>group_id = fresh_id (map group_id (groups w)), group_name = ''slack-'' @ c\<rparr>]\<rparr>))"
  by (simp add: getGroup_def getGroup_body_def groups_getAll_def groups_create_def Let_def
      split: list.splits)



lemma getGroup_absent:
  assumes "filter (\<lambda>g. group_name g = ''slack-'' @ c) (groups w) = []"
  shows "getGroup c w =
          (\<lparr>group_id = fresh_id (map group_id (groups w)), group_name = ''slack-'' @ c\<rparr>,
           (request (CreateGroup (''slack-'' @ c) ''Slack channel collaboration group''
              ''all_managed_users'') (log (LogGetGroup c) w))
             \<lparr>groups := groups w @
                [\<lparr>group_id = fresh_id (map group_id (groups w)), group_name = ''slack-'' @ c\<rparr>]\<rparr>)"
  unfolding getGroup_eq assms by simp

lemma getGroup_present:
  assumes "filter (\<lambda>g. group_name g = ''slack-'' @ c) (groups w) = g # gs"
  shows "getGroup c w = (g, log (LogGetGroup c) w)"
  unfolding getGroup_eq assms by simp




lemma filter_ConsD: "filter P xs = g # gs \<Longrightarrow> P g"
  by (induction xs) (auto split: if_splits)

lemma getGroup_name: "group_name (fst (getGroup c w)) = ''slack-'' @ c"
proof (cases "filter (\<lambda>g. group_name g = ''slack-'' @ c) (groups w)")
  case Nil
  then show ?thesis by (simp add: getGroup_absent)
next
  case (Cons g gs)
  from filter_ConsD [OF this] getGroup_present [OF Cons] show ?thesis by simp
qed

lemma getGroup_frame [simp]:
  "console (snd (getGroup c w)) = console w @ [LogGetGroup c]"
  "memberships (snd (getGroup c w)) = memberships w"
  "response (snd (getGroup c w)) = response w"
  "enterprise_users (snd (getGroup c w)) = enterprise_users w"
  "acting_as (snd (getGroup c w)) = acting_as w"
  "collaborations (snd (getGroup c w)) = collaborations w"
  "unhandled (snd (getGroup c w)) = unhandled w"
  "pending (snd (getGroup c w)) = pending w"
  by (simp_all add: getGroup_eq split: list.splits)

lemma getGroup_groups:
  "groups (snd (getGroup c w)) =
     (if filter (\<lambda>g. group_name g = ''slack-'' @ c) (groups w) = []
      then groups w @ [\<lparr>group_id = fresh_id (map group_id (groups w)), group_name = ''slack-'' @ c\<rparr>]
      else groups w)"
  by (simp add: getGroup_eq split: list.splits)

lemma getGroup_requests:
  "requests (snd (getGroup c w)) =
     (if filter (\<lambda>g. group_name g = ''slack-'' @ c) (groups w) = []
      then requests w @ [CreateGroup (''slack-'' @ c) ''Slack channel collaboration group''
                           ''all_managed_users'']
      else requests w)"
  by (simp add: getGroup_eq split: list.splits)

lemma fst_getGroup_cong:
  "groups w' = groups w \<Longrightarrow> fst (getGroup c w') = fst (getGroup c w)"
  by (simp add: getGroup_eq split: list.splits)

lemma add_calls_simps [simp]:
  "add_calls [] = []"
  "add_calls (l @ l') = add_calls l @ add_calls l'"
  "add_calls (e # l) = (case add_call e of None \<Rightarrow> add_calls l | Some c \<Rightarrow> c # add_calls l)"
  by (simp_all add: add_calls_def List.map_filter_def split: option.splits)

lemma remove_calls_simps [simp]:
  "remove_calls [] = []"
  "remove_calls (l @ l') = remove_calls l @ remove_calls l'"
  "remove_calls (e # l) =
     (case remove_call e of None \<Rightarrow> remove_calls l | Some c \<Rightarrow> c # remove_calls l)"
  by (simp_all add: remove_calls_def List.map_filter_def split: option.splits)

lemma collaboration_calls_simps [simp]:
  "collaboration_calls [] = []"
  "collaboration_calls (l @ l') = collaboration_calls l @ collaboration_calls l'"
  "collaboration_calls (e # l) =
     (case collaboration_call e of None \<Rightarrow> collaboration_calls l
      | Some c \<Rightarrow> c # collaboration_calls l)"
  by (simp_all add: collaboration_calls_def List.map_filter_def split: option.splits)

lemma getSlackUser_frame [simp]:
  "groups (snd (getSlackUser E i w)) = groups w"
  "memberships (snd (getSlackUser E i w)) = memberships w"
  "requests (snd (getSlackUser E i w)) = requests w"
  "response (snd (getSlackUser E i w)) = response w"
  "enterprise_users (snd (getSlackUser E i w)) = enterprise_users w"
  "acting_as (snd (getSlackUser E i w)) = acting_as w"
  "collaborations (snd (getSlackUser E i w)) = collaborations w"
  "add_calls (console (snd (getSlackUser E i w))) = add_calls (console w)"
  "remove_calls (console (snd (getSlackUser E i w))) = remove_calls (console w)"
  by (simp_all add: getSlackUser_def split: axios.splits option.splits)

lemma getSlackUser_Some:
  "users_info E i = Resolved (Some u) \<Longrightarrow> getSlackUser E i w = (Inr (Some u), w)"
  by (simp add: getSlackUser_def)

lemma addGroupUser_frame [simp]:
  "groups (snd (addGroupUser E g e w)) = groups w"
  "response (snd (addGroupUser E g e w)) = response w"
  "enterprise_users (snd (addGroupUser E g e w)) = enterprise_users w"
  "acting_as (snd (addGroupUser E g e w)) = acting_as w"
  "collaborations (snd (addGroupUser E g e w)) = collaborations w"
  "add_calls (console (snd (addGroupUser E g e w))) = add_calls (console w) @ [(e, g)]"
  "remove_calls (console (snd (addGroupUser E g e w))) = remove_calls (console w)"
  "collaboration_calls (requests (snd (addGroupUser E g e w))) = collaboration_calls (requests w)"
  by (simp_all add: addGroupUser_def groups_addUser_def Let_def
      split: list.splits option.splits prod.splits sum.splits)

lemma removeGroupUser_frame [simp]:
  "groups (snd (removeGroupUser g e w)) = groups w"
  "response (snd (removeGroupUser g e w)) = response w"
  "enterprise_users (snd (removeGroupUser g e w)) = enterprise_users w"
  "acting_as (snd (removeGroupUser g e w)) = acting_as w"
  "collaborations (snd (removeGroupUser g e w)) = collaborations w"
  "add_calls (console (snd (removeGroupUser g e w))) = add_calls (console w)"
  "remove_calls (console (snd (removeGroupUser g e w))) = remove_calls (console w) @ [(e, g)]"
  "collaboration_calls (requests (snd (removeGroupUser g e w))) = collaboration_calls (requests w)"
  "fst (removeGroupUser g e w) = Inr ()"
  by (simp_all add: removeGroupUser_def groups_removeMembership_def Let_def
      split: list.splits)

lemma forEach_member_frame [simp]:
  "groups (forEach_member g ms w) = groups w"
  "memberships (forEach_member g ms w) = memberships w"
  "requests (forEach_member g ms w) = requests w"
  "console (forEach_member g ms w) = console w"
  "response (forEach_member g ms w) = response w"
  "unhandled (forEach_member g ms w) = unhandled w"
  "pending (forEach_member g ms w) = pending w @ map (AwaitSlackUser g) ms"
  by (simp_all add: forEach_member_def)

lemma syncChannelToGroup_frame [simp]:
  "groups (snd (syncChannelToGroup E c g w)) = groups w"
  "memberships (snd (syncChannelToGroup E c g w)) = memberships w"
  "requests (snd (syncChannelToGroup E c g w)) = requests w"
  "response (snd (syncChannelToGroup E c g w)) = response w"
  "unhandled (snd (syncChannelToGroup E c g w)) = unhandled w"
  "console (snd (syncChannelToGroup E c g w)) = console w @ [LogSyncing c g]"
  by (simp_all add: syncChannelToGroup_def Let_def split: axios.splits option.splits)

lemma syncChannelToGroup_members:
  "conversations_members E c 100 = Resolved (Some ms) \<Longrightarrow>
   syncChannelToGroup E c g w = (Inr (), forEach_member g ms (log (LogSyncing c g) w))"
  by (simp add: syncChannelToGroup_def Let_def)

lemma res_send_frame [simp]:
  "groups (snd (res_send st b w)) = groups w"
  "console (snd (res_send st b w)) = console w"
  "requests (snd (res_send st b w)) = requests w"
  "memberships (snd (res_send st b w)) = memberships w"
  "collaborations (snd (res_send st b w)) = collaborations w"
  "acting_as (snd (res_send st b w)) = acting_as w"
  by (simp_all add: res_send_def split: option.splits)

lemma res_send_Empty [simp]: "fst (res_send st Empty w) = Inr ()"
  by (simp add: res_send_def split: option.splits)

lemma fst_getGroup_log [simp]: "fst (getGroup c (log e w)) = fst (getGroup c w)"
  by (rule fst_getGroup_cong) simp

text \<open>What \<open>syncSlackUsers\<close> does for a user that was found, branch by branch.\<close>

lemma syncSlackUsers_bot:
  "is_bot u \<Longrightarrow>
   syncSlackUsers E (Some u) ev c w =
     syncChannelToGroup E c (group_id (fst (getGroup c w)))
       (snd (getGroup c (log (LogReceived ev (name u)) w)))"
  by (simp add: syncSlackUsers_def Let_def case_prod_unfold)

lemma syncSlackUsers_joined:
  "\<not> is_bot u \<Longrightarrow> email u = Some e \<Longrightarrow> e \<noteq> [] \<Longrightarrow>
   syncSlackUsers E (Some u) ''member_joined_channel'' c w =
     addGroupUser E (group_id (fst (getGroup c w))) e
       (snd (getGroup c (log (LogReceived ''member_joined_channel'' (name u)) w)))"
  by (simp add: syncSlackUsers_def Let_def case_prod_unfold)

lemma syncSlackUsers_left:
  "\<not> is_bot u \<Longrightarrow> email u = Some e \<Longrightarrow> e \<noteq> [] \<Longrightarrow>
   syncSlackUsers E (Some u) ''member_left_channel'' c w =
     removeGroupUser (group_id (fst (getGroup c w))) e
       (snd (getGroup c (log (LogReceived ''member_left_channel'' (name u)) w)))"
  by (simp add: syncSlackUsers_def Let_def case_prod_unfold)

lemma syncSlackUsers_groups:
  "groups (snd (syncSlackUsers E (Some u) ev c w)) = groups (snd (getGroup c w))"
  by (simp add: syncSlackUsers_def Let_def case_prod_unfold getGroup_groups
      split: option.splits)

lemma handleEventCallback_found:
  "event req = Some ev \<Longrightarrow> users_info E (ev_user ev) = Resolved (Some u) \<Longrightarrow>
   handleEventCallback E req w =
     (case syncSlackUsers E (Some u) (ev_type ev) (ev_channel ev) w of
        (Inl e, w2) \<Rightarrow> (Inl e, w2)
      | (Inr _, w2) \<Rightarrow> res_send 200 Empty w2)"
  by (simp add: handleEventCallback_def getSlackUser_Some)

lemma handleEventCallback_console:
  "event req = Some ev \<Longrightarrow> users_info E (ev_user ev) = Resolved (Some u) \<Longrightarrow>
   console (snd (handleEventCallback E req w)) =
     console (snd (syncSlackUsers E (Some u) (ev_type ev) (ev_channel ev) w))"
  by (simp add: handleEventCallback_found split: prod.splits sum.splits)

subsection \<open>Events\<close>

lemma handleEventCallback_groups:
  "event req = Some ev \<Longrightarrow> users_info E (ev_user ev) = Resolved (Some u) \<Longrightarrow>
   groups (snd (handleEventCallback E req w)) =
     groups (snd (syncSlackUsers E (Some u) (ev_type ev) (ev_channel ev) w))"
  by (simp add: handleEventCallback_found split: prod.splits sum.splits)

lemma removeGroupUser_absent:
  "filter (\<lambda>m. login (m_user m) = e) (filter (\<lambda>m. m_group_id m = g) (memberships w)) = [] \<Longrightarrow>
   memberships (snd (removeGroupUser g e w)) = memberships w \<and>
   requests (snd (removeGroupUser g e w)) = requests w"
  by (simp add: removeGroupUser_def groups_getMemberships_def Let_def)

lemma removeGroupUser_ok:
  "removeGroupUser g e w = (Inr (), snd (removeGroupUser g e w))"
  by (simp add: prod_eq_iff)

lemma handleEventCallback_left:
  assumes "event req = Some ev"
    and "ev_type ev = ''member_left_channel''"
    and "users_info E (ev_user ev) = Resolved (Some u)"
    and "\<not> is_bot u"
    and "email u = Some e"
    and "e \<noteq> []"
  shows "handleEventCallback E req w =
           res_send 200 Empty
             (snd (removeGroupUser (group_id (fst (getGroup (ev_channel ev) w))) e
                (snd (getGroup (ev_channel ev)
                   (log (LogReceived ''member_left_channel'' (name u)) w)))))"
proof -
  have "syncSlackUsers E (Some u) (ev_type ev) (ev_channel ev) w =
          (Inr (), snd (removeGroupUser (group_id (fst (getGroup (ev_channel ev) w))) e
                (snd (getGroup (ev_channel ev)
                   (log (LogReceived ''member_left_channel'' (name u)) w)))))"
    unfolding assms(2) syncSlackUsers_left [OF assms(4) assms(5) assms(6)]
    by (rule removeGroupUser_ok)
  then show ?thesis
    by (simp add: handleEventCallback_found [OF assms(1) assms(3)])
qed

subsection \<open>The slash command\<close>

lemma enterprise_getUsers_cong:
  "enterprise_users w' = enterprise_users w \<Longrightarrow>
   enterprise_getUsers E t w' = enterprise_getUsers E t w"
  by (simp add: enterprise_getUsers_def split: option.splits)

lemma enterprise_getUsers_getGroup [simp]:
  "enterprise_getUsers E t (snd (getGroup c w)) = enterprise_getUsers E t w"
  by (rule enterprise_getUsers_cong) simp

text \<open>\<open>handleCommand\<close> once the text has passed the check, the requester was found and
  the search for the storage user has answered.\<close>

lemma handleCommand_not_found:
  assumes "body_text req = Some txt"
    and "\<not> invalid_input (hd (split_on CHR '' '' txt)) (second (split_on CHR '' '' txt))"
    and "users_info E (user_id req) = Resolved (Some su)"
    and "enterprise_getUsers E (email su) w = []"
  shows "handleCommand E req w =
           res_send 200
             (Text (''Could not find a Box user with email '' @
                    (case email su of None \<Rightarrow> ''undefined'' | Some eml \<Rightarrow> eml)))
             (snd (getGroup (channel_id req) w))"
  using assms
  by (simp add: handleCommand_def Let_def case_prod_unfold getSlackUser_Some)

lemma handleCommand_found:
  assumes "body_text req = Some txt"
    and "\<not> invalid_input (hd (split_on CHR '' '' txt)) (second (split_on CHR '' '' txt))"
    and "users_info E (user_id req) = Resolved (Some su)"
    and "enterprise_getUsers E (email su) w = bu # bus"
    and "response w = None"
  shows "handleCommand E req w =
           (Inr (),
            (if collaboration_accepted E (requested req txt (uid bu) w)
             then (request (CreateCollaboration (requested req txt (uid bu) w))
                     (asUser (uid bu) (snd (getGroup (channel_id req) w))))
                    \<lparr>collaborations := collaborations w @ [requested req txt (uid bu) w],
                     response := Some (200, Text ''Provided all users with access to item'')\<rparr>
             else (request (CreateCollaboration (requested req txt (uid bu) w))
                     (asUser (uid bu) (snd (getGroup (channel_id req) w))))
                    \<lparr>response := Some (200, Text ''Could not provide all users access'')\<rparr>))"
  using assms
  by (simp add: handleCommand_def Let_def case_prod_unfold getSlackUser_Some requested_def
      collaborations_createWithGroupID_def asUser_def res_send_def)

lemma valid_file_123456: "\<not> invalid_input ''file'' (Some ''123456'')"
  by (simp add: invalid_input_def numeric_string_def trim_def is_ws1_def is_ws2_def
      is_ws3_def unsigned_decimal_def)

lemma valid_file_999: "\<not> invalid_input ''file'' (Some ''999'')"
  by (simp add: invalid_input_def numeric_string_def trim_def is_ws1_def is_ws2_def
      is_ws3_def unsigned_decimal_def)

lemma invalid_badtype_abc: "invalid_input ''badtype'' (Some ''abc'')"
  by (simp add: invalid_input_def)

subsection \<open>The response does not steer the workflows\<close>

text \<open>No function but \<open>res_send\<close> reads or writes the response.\<close>

lemma log_response: "log e (w\<lparr>response := r\<rparr>) = (log e w)\<lparr>response := r\<rparr>"
  by (simp add: log_def)

lemma getGroup_response:
  "getGroup c (w\<lparr>response := r\<rparr>) = (fst (getGroup c w), (snd (getGroup c w))\<lparr>response := r\<rparr>)"
  by (simp add: getGroup_eq log_def request_def split: list.splits)

lemma getSlackUser_response:
  "getSlackUser E i (w\<lparr>response := r\<rparr>) =
     (fst (getSlackUser E i w), (snd (getSlackUser E i w))\<lparr>response := r\<rparr>)"
  by (simp add: getSlackUser_def log_def split: axios.splits option.splits)

lemma addGroupUser_response:
  "addGroupUser E g e (w\<lparr>response := r\<rparr>) =
     (fst (addGroupUser E g e w), (snd (addGroupUser E g e w))\<lparr>response := r\<rparr>)"
  by (simp add: addGroupUser_def enterprise_getUsers_def users_getGroupMemberships_def
      groups_addUser_def log_def request_def Let_def split: list.splits option.splits)

lemma removeGroupUser_response:
  "removeGroupUser g e (w\<lparr>response := r\<rparr>) =
     (fst (removeGroupUser g e w), (snd (removeGroupUser g e w))\<lparr>response := r\<rparr>)"
  by (simp add: removeGroupUser_def groups_getMemberships_def groups_removeMembership_def
      log_def request_def Let_def split: list.splits)

lemma forEach_member_response:
  "forEach_member g ms (w\<lparr>response := r\<rparr>) = (forEach_member g ms w)\<lparr>response := r\<rparr>"
  by (simp add: forEach_member_def)

lemma syncChannelToGroup_response:
  "syncChannelToGroup E c g (w\<lparr>response := r\<rparr>) =
     (fst (syncChannelToGroup E c g w), (snd (syncChannelToGroup E c g w))\<lparr>response := r\<rparr>)"
  by (simp add: syncChannelToGroup_def Let_def log_response forEach_member_response
      split: axios.splits option.splits)

lemma syncSlackUsers_response:
  "syncSlackUsers E user ev c (w\<lparr>response := r\<rparr>) =
     (fst (syncSlackUsers E user ev c w), (snd (syncSlackUsers E user ev c w))\<lparr>response := r\<rparr>)"
  by (simp add: syncSlackUsers_def Let_def case_prod_unfold log_response getGroup_response
      syncChannelToGroup_response addGroupUser_response removeGroupUser_response
      split: option.splits)

lemma effects_simps [simp]:
  "effects (w\<lparr>response := r\<rparr>) = effects w"
  "effects (snd (res_send st b w)) = effects w"
  by (simp_all add: effects_def res_send_def split: option.splits)

lemma handleEventCallback_effects:
  "effects (snd (handleEventCallback E req (w\<lparr>response := r\<rparr>))) =
   effects (snd (handleEventCallback E req w))"
  by (simp add: handleEventCallback_def getSlackUser_response syncSlackUsers_response
      split: option.splits prod.splits sum.splits)

lemma syncSlackUsers_response_frame [simp]:
  "response (snd (syncSlackUsers E user ev c w)) = response w"
  by (simp add: syncSlackUsers_def Let_def case_prod_unfold split: option.splits)

lemma res_send_sent:
  "response w = Some x \<Longrightarrow> response (snd (res_send st b w)) = Some x"
  by (simp add: res_send_def)

lemma handleUrlVerification_sent:
  "response w = Some x \<Longrightarrow> response (snd (handleUrlVerification req w)) = Some x"
  by (simp add: handleUrlVerification_def res_send_sent)

lemma createWithGroupID_frame [simp]:
  "response (snd (collaborations_createWithGroupID E g i r t w)) = response w"
  by (simp add: collaborations_createWithGroupID_def Let_def)

lemma asUser_frame [simp]:
  "response (asUser i w) = response w"
  by (simp add: asUser_def)

lemma enterprise_getUsers_response [simp]:
  "enterprise_getUsers E t (w\<lparr>response := r\<rparr>) = enterprise_getUsers E t w"
  by (rule enterprise_getUsers_cong) simp

lemma enterprise_getUsers_log [simp]:
  "enterprise_getUsers E t (log e w) = enterprise_getUsers E t w"
  by (rule enterprise_getUsers_cong) simp

lemma handleEventCallback_sent:
  "response w = Some x \<Longrightarrow> response (snd (handleEventCallback E req w)) = Some x"
  by (simp add: handleEventCallback_def case_prod_unfold res_send_sent
      split: option.splits sum.splits)

lemma handleCommand_effects:
  assumes "\<And>tx. body_text req = Some tx \<Longrightarrow>
             \<not> invalid_input (hd (split_on CHR '' '' tx)) (second (split_on CHR '' '' tx))"
  shows "effects (snd (handleCommand E req (w\<lparr>response := r\<rparr>))) =
         effects (snd (handleCommand E req w))"
proof (cases "body_text req")
  case None
  then show ?thesis by (simp add: handleCommand_def)
next
  case (Some tx)
  with assms have v: "\<not> invalid_input (hd (split_on CHR '' '' tx)) (second (split_on CHR '' '' tx))"
    by simp
  show ?thesis
  proof (cases "users_info E (user_id req)")
    case Rejected
    then show ?thesis using Some v
      by (simp add: handleCommand_def Let_def case_prod_unfold getGroup_response getSlackUser_def)
  next
    case (Resolved d)
    show ?thesis
    proof (cases d)
      case None
      then show ?thesis using Some v Resolved
        by (simp add: handleCommand_def Let_def case_prod_unfold getGroup_response
            getSlackUser_def log_response)
    next
      case (Some su)
      show ?thesis
      proof (cases "enterprise_getUsers E (email su) w")
        case Nil
        then show ?thesis using \<open>body_text req = Some tx\<close> v Resolved Some
          by (simp add: handleCommand_def Let_def case_prod_unfold getGroup_response
              getSlackUser_def)
      next
        case (Cons bu bus)
        then show ?thesis using \<open>body_text req = Some tx\<close> v Resolved Some
          by (simp add: handleCommand_def Let_def case_prod_unfold getGroup_response
              getSlackUser_def collaborations_createWithGroupID_def asUser_def request_def
              res_send_def effects_def split: option.splits)
      qed
    qed
  qed
qed

lemma handleCommand_sent:
  assumes "response w = Some x"
  shows "response (snd (handleCommand E req w)) = Some x"
proof (cases "body_text req")
  case None
  then show ?thesis using assms by (simp add: handleCommand_def)
next
  case (Some tx)
  show ?thesis
  proof (cases "invalid_input (hd (split_on CHR '' '' tx)) (second (split_on CHR '' '' tx))")
    case True
    then show ?thesis using assms Some by (simp add: handleCommand_def Let_def res_send_def)
  next
    case v: False
    show ?thesis
    proof (cases "users_info E (user_id req)")
      case Rejected
      then show ?thesis using Some v assms
        by (simp add: handleCommand_def Let_def case_prod_unfold getSlackUser_def)
    next
      case (Resolved d)
      show ?thesis
      proof (cases d)
        case None
        then show ?thesis using Some v Resolved assms
          by (simp add: handleCommand_def Let_def case_prod_unfold getSlackUser_def)
      next
        case (Some su)
        show ?thesis
        proof (cases "enterprise_getUsers E (email su) w")
          case Nil
          then show ?thesis using \<open>body_text req = Some tx\<close> v Resolved Some assms
            by (simp add: handleCommand_def Let_def case_prod_unfold getSlackUser_def
                res_send_sent)
        next
          case (Cons bu bus)
          then show ?thesis using \<open>body_text req = Some tx\<close> v Resolved Some assms
            by (simp add: handleCommand_def Let_def case_prod_unfold getSlackUser_def
                collaborations_createWithGroupID_def asUser_def request_def res_send_def)
        qed
      qed
    qed
  qed
qed

text \<open>An invalid text on a fresh response: the usage message is sent and the rest of
  \<open>handleCommand\<close> runs on the world that holds it.\<close>

lemma handleCommand_invalid_found:
  assumes "body_text req = Some tx"
    and "invalid_input (hd (split_on CHR '' '' tx)) (second (split_on CHR '' '' tx))"
    and "response w = None"
    and "users_info E (user_id req) = Resolved (Some su)"
    and "enterprise_getUsers E (email su) w = bu # bus"
  shows "handleCommand E req w =
           (Inl HeadersSent,
            (if collaboration_accepted E (requested req tx (uid bu) w)
             then (request (CreateCollaboration (requested req tx (uid bu) w))
                     (asUser (uid bu) (snd (getGroup (channel_id req) w))))
                    \<lparr>collaborations := collaborations w @ [requested req tx (uid bu) w],
                     response := Some (200, Text ''Invalid input. Example usage: /boxadd file 123456'')\<rparr>
             else (request (CreateCollaboration (requested req tx (uid bu) w))
                     (asUser (uid bu) (snd (getGroup (channel_id req) w))))
                    \<lparr>response := Some (200, Text ''Invalid input. Example usage: /boxadd file 123456'')\<rparr>))"
  using assms
  by (simp add: handleCommand_def Let_def case_prod_unfold getSlackUser_def requested_def
      getGroup_response collaborations_createWithGroupID_def asUser_def request_def res_send_def)

lemma handleCommand_invalid_runs:
  assumes "body_text req = Some tx"
    and "invalid_input (hd (split_on CHR '' '' tx)) (second (split_on CHR '' '' tx))"
    and "response w = None"
  shows "response (snd (handleCommand E req w)) =
           Some (200, Text ''Invalid input. Example usage: /boxadd file 123456'') \<and>
         groups (snd (handleCommand E req w)) = groups (snd (getGroup (channel_id req) w))"
proof (cases "users_info E (user_id req)")
  case Rejected
  then show ?thesis using assms
    by (simp add: handleCommand_def Let_def case_prod_unfold getSlackUser_def res_send_def
        getGroup_response)
next
  case (Resolved d)
  show ?thesis
  proof (cases d)
    case None
    then show ?thesis using assms Resolved
      by (simp add: handleCommand_def Let_def case_prod_unfold getSlackUser_def res_send_def
          getGroup_response)
  next
    case (Some su)
    show ?thesis
    proof (cases "enterprise_getUsers E (email su) w")
      case Nil
      then show ?thesis using assms Resolved Some
        by (simp add: handleCommand_def Let_def case_prod_unfold getSlackUser_def res_send_def
            getGroup_response)
    next
      case (Cons bu bus)
      have "users_info E (user_id req) = Resolved (Some su)"
        using Resolved Some by simp
      from handleCommand_invalid_found [OF assms this Cons]
      show ?thesis by (simp add: asUser_def)
    qed
  qed
qed

subsection \<open>The route\<close>

lemma post_event_unverified:
  "token req \<noteq> Some (verificationToken E) \<Longrightarrow> response w = None \<Longrightarrow>
   post_event E req w =
     (if body_type req = Some ''url_verification''
        then handleUrlVerification req
               (w\<lparr>response := Some (400, Text ''Slack Verification Failed'')\<rparr>)
      else if body_type req = Some ''event_callback''
        then handleEventCallback E req
               (w\<lparr>response := Some (400, Text ''Slack Verification Failed'')\<rparr>)
      else if command req = Some ''/boxadd''
        then handleCommand E req (w\<lparr>response := Some (400, Text ''Slack Verification Failed'')\<rparr>)
      else res_send 400 Empty (w\<lparr>response := Some (400, Text ''Slack Verification Failed'')\<rparr>))"
  by (simp add: post_event_def res_send_def)

lemma unverified_response:
  assumes "token req \<noteq> Some (verificationToken E)" and "response w = None"
  shows "response (snd (post_event E req w)) = Some (400, Text ''Slack Verification Failed'')"
  by (simp add: post_event_unverified [OF assms] handleUrlVerification_sent
      handleEventCallback_sent handleCommand_sent res_send_sent)

text \<open>After a token that does not match, the handlers leave behind what they leave behind
  on a response not yet sent, as long as they do not have to send a body themselves before
  they are done.\<close>

lemma effects_fields [simp]:
  "console (effects w) = console w" "requests (effects w) = requests w"
  "groups (effects w) = groups w" "memberships (effects w) = memberships w"
  by (simp_all add: effects_def)

lemma unverified_url:
  assumes "token req \<noteq> Some (verificationToken E)" and "response w = None"
    and "body_type req = Some ''url_verification''"
  shows "console (snd (post_event E req w)) = console w @ [LogUrlVerification]"
  by (simp add: post_event_unverified [OF assms(1,2)] assms(3) handleUrlVerification_def)

lemma unverified_event:
  assumes "token req \<noteq> Some (verificationToken E)" and "response w = None"
    and "body_type req = Some ''event_callback''"
  shows "effects (snd (post_event E req w)) = effects (snd (handleEventCallback E req w))"
  by (simp add: post_event_unverified [OF assms(1,2)] assms(3) handleEventCallback_effects)

lemma unverified_command:
  assumes "token req \<noteq> Some (verificationToken E)" and "response w = None"
    and "body_type req \<noteq> Some ''url_verification''"
    and "body_type req \<noteq> Some ''event_callback''"
    and "command req = Some ''/boxadd''"
    and "\<not> usage_error req"
  shows "effects (snd (post_event E req w)) = effects (snd (handleCommand E req w))"
proof -
  have "effects (snd (handleCommand E req
              (w\<lparr>response := Some (400, Text ''Slack Verification Failed'')\<rparr>))) =
        effects (snd (handleCommand E req w))"
  proof (rule handleCommand_effects)
    fix tx assume "body_text req = Some tx"
    with assms(3-6)
    show "\<not> invalid_input (hd (split_on CHR '' '' tx)) (second (split_on CHR '' '' tx))"
      by (simp add: usage_error_def)
  qed
  then show ?thesis
    by (simp add: post_event_unverified [OF assms(1,2)] assms(3-5))
qed

lemma unverified_join:
  assumes "token req \<noteq> Some (verificationToken E)" and "response w = None"
    and "body_type req = Some ''event_callback''"
    and "event req = Some ev"
    and "ev_type ev = ''member_joined_channel''"
    and "users_info E (ev_user ev) = Resolved (Some u)"
    and "\<not> is_bot u"
    and "email u = Some e"
    and "e \<noteq> []"
  shows "add_calls (console (snd (post_event E req w))) =
           add_calls (console w) @ [(e, group_id (fst (getGroup (ev_channel ev) w)))]"
proof -
  have "console (snd (post_event E req w)) = console (effects (snd (post_event E req w)))"
    by simp
  also have "\<dots> = console (snd (handleEventCallback E req w))"
    unfolding unverified_event [OF assms(1-3)] by simp
  also have "\<dots> = console (snd (syncSlackUsers E (Some u) ''member_joined_channel''
                        (ev_channel ev) w))"
    using handleEventCallback_console [OF assms(4) assms(6)] assms(5) by simp
  finally show ?thesis
    by (simp add: syncSlackUsers_joined [OF assms(7-9)])
qed

lemma unverified_collaboration:
  assumes "token req \<noteq> Some (verificationToken E)" and "response w = None"
    and "body_type req \<noteq> Some ''url_verification''"
    and "body_type req \<noteq> Some ''event_callback''"
    and "command req = Some ''/boxadd''"
    and "\<not> usage_error req"
    and "body_text req = Some tx"
    and "users_info E (user_id req) = Resolved (Some su)"
    and "enterprise_getUsers E (email su) w = bu # bus"
  shows "collaboration_calls (requests (snd (post_event E req w))) =
           collaboration_calls (requests w) @ [requested req tx (uid bu) w]"
proof -
  have v: "\<not> invalid_input (hd (split_on CHR '' '' tx)) (second (split_on CHR '' '' tx))"
    using assms(3-7) by (simp add: usage_error_def)
  have "requests (snd (post_event E req w)) = requests (effects (snd (post_event E req w)))"
    by simp
  also have "\<dots> = requests (snd (handleCommand E req w))"
    unfolding unverified_command [OF assms(1-6)] by simp
  finally show ?thesis
    by (simp add: handleCommand_found [OF assms(7) v assms(8) assms(9) assms(2)] asUser_def
        getGroup_requests)
qed

subsection \<open>The callbacks of the fan-out\<close>

text \<open>Run alone, the steps of a callback from its call of \<open>addGroupUser\<close> on are
  \<open>addGroupUser\<close> as \<open>syncSlackUsers\<close> awaits it.\<close>

lemma addGroupUser_in_steps:
  "to_end E 3 (AwaitUsers g e) (log (LogAdding e g) w) = addGroupUser E g e w"
  by (simp add: numeral_3_eq_3 addGroupUser_def Let_def enterprise_getUsers_def
      users_getGroupMemberships_def groups_addUser_def
      split: list.splits option.splits prod.splits sum.splits)

lemma due_calls_update:
  "i < length ts \<Longrightarrow>
   due_calls E (ts[i := t]) + mset (calls_to_come E (ts ! i)) =
   due_calls E ts + mset (calls_to_come E t)"
proof (induction ts arbitrary: i)
  case Nil
  then show ?case by simp
next
  case (Cons a ts)
  show ?case
  proof (cases i)
    case 0
    then show ?thesis by (simp add: due_calls_def)
  next
    case (Suc j)
    with Cons.prems have "j < length ts" by simp
    from Cons.IH [OF this] Suc show ?thesis
      by (simp add: due_calls_def ac_simps)
  qed
qed

lemma due_ends_update:
  "i < length ts \<Longrightarrow>
   due_ends E (ts[i := t]) + mset (ends_to_come E (ts ! i)) =
   due_ends E ts + mset (ends_to_come E t)"
proof (induction ts arbitrary: i)
  case Nil
  then show ?case by simp
next
  case (Cons a ts)
  show ?case
  proof (cases i)
    case 0
    then show ?thesis by (simp add: due_ends_def)
  next
    case (Suc j)
    with Cons.prems have "j < length ts" by simp
    from Cons.IH [OF this] Suc show ?thesis
      by (simp add: due_ends_def ac_simps)
  qed
qed

text \<open>One step of a callback: the calls begun and still to begin, and the calls ended and
  still to end, stay the same in number.\<close>

lemma member_callback_calls:
  "mset (add_calls (console (snd (member_callback E t w)))) +
     (case fst (member_callback E t w) of Inl e \<Rightarrow> {#} | Inr t' \<Rightarrow> mset (calls_to_come E t')) =
   mset (add_calls (console w)) + mset (calls_to_come E t)"
  by (cases t)
     (simp_all add: getSlackUser_def roster_email_def enterprise_getUsers_def groups_addUser_def
       Let_def split: axios.splits option.splits list.splits)

lemma member_callback_ends:
  "fst (member_callback E t w) = Inr t' \<Longrightarrow>
   mset (add_outcomes (console (snd (member_callback E t w)))) + mset (ends_to_come E t') =
   mset (add_outcomes (console w)) + mset (ends_to_come E t)"
  by (cases t)
     (auto simp add: getSlackUser_def roster_email_def enterprise_getUsers_def groups_addUser_def
       add_outcomes_def List.map_filter_def Let_def
       split: axios.splits option.splits list.splits if_splits)

lemma add_outcomes_simps [simp]:
  "add_outcomes [] = []"
  "add_outcomes (l @ l') = add_outcomes l @ add_outcomes l'"
  "add_outcomes (e # l) = (case add_outcome e of None \<Rightarrow> add_outcomes l | Some c \<Rightarrow> c # add_outcomes l)"
  by (simp_all add: add_outcomes_def List.map_filter_def split: option.splits)

lemma member_callback_frame [simp]:
  "groups (snd (member_callback E t w)) = groups w"
  "response (snd (member_callback E t w)) = response w"
  "unhandled (snd (member_callback E t w)) = unhandled w"
  "pending (snd (member_callback E t w)) = pending w"
  by (cases t; simp add: getSlackUser_def enterprise_getUsers_def groups_addUser_def Let_def
      split: axios.splits option.splits list.splits)+

lemma answer_exited: "exited w \<Longrightarrow> answer E i w = w"
  by (simp add: answer_def)

lemma run_callbacks_exited: "exited w \<Longrightarrow> run_callbacks E s w = w"
  by (induction s) (simp_all add: answer_exited)

lemma answer_frame [simp]:
  "groups (answer E i w) = groups w"
  "response (answer E i w) = response w"
  "length (pending (answer E i w)) = length (pending w)"
  by (simp_all add: answer_def case_prod_unfold split: sum.splits)

lemma run_callbacks_frame [simp]:
  "groups (run_callbacks E s w) = groups w"
  "response (run_callbacks E s w) = response w"
  "length (pending (run_callbacks E s w)) = length (pending w)"
  by (induction s arbitrary: w; simp)+

lemma answer_calls:
  "mset (add_calls (console (answer E i w))) + due_calls E (pending (answer E i w)) =
   mset (add_calls (console w)) + due_calls E (pending w)"
proof (cases "\<not> exited w \<and> i < length (pending w)")
  case False
  then show ?thesis by (auto simp: answer_def)
next
  case True
  let ?t = "pending w ! i"
  let ?r = "member_callback E ?t w"
  let ?t' = "case fst ?r of Inl e \<Rightarrow> Settled | Inr t' \<Rightarrow> t'"
  have c: "console (answer E i w) = console (snd ?r)"
    and p: "pending (answer E i w) = (pending w)[i := ?t']"
    using True by (simp_all add: answer_def case_prod_unfold split: sum.splits)
  have 1: "mset (add_calls (console (snd ?r))) + mset (calls_to_come E ?t') =
           mset (add_calls (console w)) + mset (calls_to_come E ?t)"
    using member_callback_calls [of E ?t w] by (simp split: sum.splits)
  have 2: "due_calls E ((pending w)[i := ?t']) + mset (calls_to_come E ?t) =
           due_calls E (pending w) + mset (calls_to_come E ?t')"
    using True by (simp add: due_calls_update)
  have "(mset (add_calls (console (snd ?r))) + due_calls E ((pending w)[i := ?t'])) +
          (mset (calls_to_come E ?t') + mset (calls_to_come E ?t)) =
        (mset (add_calls (console (snd ?r))) + mset (calls_to_come E ?t')) +
          (due_calls E ((pending w)[i := ?t']) + mset (calls_to_come E ?t))"
    by (simp add: ac_simps)
  also have "\<dots> = (mset (add_calls (console w)) + due_calls E (pending w)) +
          (mset (calls_to_come E ?t') + mset (calls_to_come E ?t))"
    unfolding 1 2 by (simp add: ac_simps)
  finally show ?thesis unfolding c p by simp
qed

lemma answer_ends:
  assumes "\<not> exited (answer E i w)"
  shows "mset (add_outcomes (console (answer E i w))) + due_ends E (pending (answer E i w)) =
         mset (add_outcomes (console w)) + due_ends E (pending w)"
proof (cases "\<not> exited w \<and> i < length (pending w)")
  case False
  then show ?thesis by (auto simp: answer_def)
next
  case True
  let ?t = "pending w ! i"
  let ?r = "member_callback E ?t w"
  obtain t' where r: "fst ?r = Inr t'"
    using assms True
    by (cases "fst ?r") (simp_all add: answer_def case_prod_unfold exited_def)
  have c: "console (answer E i w) = console (snd ?r)"
    and p: "pending (answer E i w) = (pending w)[i := t']"
    using True r by (simp_all add: answer_def case_prod_unfold)
  note 1 = member_callback_ends [OF r]
  have 2: "due_ends E ((pending w)[i := t']) + mset (ends_to_come E ?t) =
           due_ends E (pending w) + mset (ends_to_come E t')"
    using True by (simp add: due_ends_update)
  have "(mset (add_outcomes (console (snd ?r))) + due_ends E ((pending w)[i := t'])) +
          (mset (ends_to_come E t') + mset (ends_to_come E ?t)) =
        (mset (add_outcomes (console (snd ?r))) + mset (ends_to_come E t')) +
          (due_ends E ((pending w)[i := t']) + mset (ends_to_come E ?t))"
    by (simp add: ac_simps)
  also have "\<dots> = (mset (add_outcomes (console w)) + due_ends E (pending w)) +
          (mset (ends_to_come E t') + mset (ends_to_come E ?t))"
    unfolding 1 2 by (simp add: ac_simps)
  finally show ?thesis unfolding c p by simp
qed

lemma run_callbacks_calls:
  "mset (add_calls (console (run_callbacks E s w))) + due_calls E (pending (run_callbacks E s w)) =
   mset (add_calls (console w)) + due_calls E (pending w)"
  by (induction s arbitrary: w) (simp_all add: answer_calls)

lemma run_callbacks_ends:
  "\<not> exited (run_callbacks E s w) \<Longrightarrow>
   mset (add_outcomes (console (run_callbacks E s w))) + due_ends E (pending (run_callbacks E s w)) =
   mset (add_outcomes (console w)) + due_ends E (pending w)"
proof (induction s arbitrary: w)
  case Nil
  show ?case by simp
next
  case (Cons i s)
  have "\<not> exited (answer E i w)"
    using Cons.prems run_callbacks_exited [of "answer E i w" E s] by auto
  with Cons show ?case by (simp add: answer_ends)
qed

lemma due_settled:
  "\<forall>t\<in>set ts. t = Settled \<Longrightarrow> due_calls E ts = {#} \<and> due_ends E ts = {#}"
  by (induction ts) (simp_all add: due_calls_def due_ends_def)

lemma map_filter_Cons:
  "List.map_filter f (x # xs) =
     (case f x of None \<Rightarrow> List.map_filter f xs | Some y \<Rightarrow> y # List.map_filter f xs)"
  by (simp add: List.map_filter_def split: option.splits)

lemma due_started:
  "due_calls E (map (AwaitSlackUser g) ms) =
     mset (map (\<lambda>e. (e, g)) (List.map_filter (roster_email E) ms)) \<and>
   due_ends E (map (AwaitSlackUser g) ms) = mset (List.map_filter (roster_email E) ms)"
  by (induction ms) (simp_all add: due_calls_def due_ends_def map_filter_Cons List.map_filter_def
      split: option.splits)

lemma res_send_frame2 [simp]:
  "pending (snd (res_send st b w)) = pending w"
  "unhandled (snd (res_send st b w)) = unhandled w"
  by (simp_all add: res_send_def split: option.splits)

lemma handleEventCallback_bot:
  assumes "event req = Some ev"
    and "users_info E (ev_user ev) = Resolved (Some u)"
    and "is_bot u"
    and "conversations_members E (ev_channel ev) 100 = Resolved (Some ms)"
  shows "handleEventCallback E req w =
           res_send 200 Empty
             (forEach_member (group_id (fst (getGroup (ev_channel ev) w))) ms
                (log (LogSyncing (ev_channel ev) (group_id (fst (getGroup (ev_channel ev) w))))
                   (snd (getGroup (ev_channel ev)
                      (log (LogReceived (ev_type ev) (name u)) w)))))"
  by (simp add: handleEventCallback_found [OF assms(1) assms(2)] syncSlackUsers_bot [OF assms(3)]
      syncChannelToGroup_members [OF assms(4)])

text \<open>Two runs of the fan-out: on \<open>C3\<close> with the answers out of turn, and on \<open>C2\<close>, where
  the second lookup is rejected.\<close>

lemma fanout_C3:
  "event_loop env3 (snd (handleEventCallback env3 (event_request ''message'' ''C3'' ''B1'') world0)) =
     world0
       \<lparr>groups := [\<lparr>group_id = 1, group_name = ''slack-C3''\<rparr>],
        memberships := [\<lparr>membership_id = 1, m_user = box_bob, m_group_id = 1\<rparr>,
                        \<lparr>membership_id = 2, m_user = box_alice, m_group_id = 1\<rparr>],
        requests := [CreateGroup ''slack-C3'' ''Slack channel collaboration group''
                       ''all_managed_users'', AddUser 1 12 MEMBER, AddUser 1 11 MEMBER],
        console := [LogReceived ''message'' ''syncbot'', LogGetGroup ''C3'', LogSyncing ''C3'' 1,
                    LogAdding ''bob@example.com'' 1, LogAdding ''alice@example.com'' 1,
                    LogAdded ''bob@example.com'' 1, LogAdded ''alice@example.com'' 1],
        response := Some (200, Empty),
        pending := [Settled, Settled, Settled, Settled]\<rparr>"
  by code_simp

lemma fanout_C2:
  "event_loop env0 (snd (handleEventCallback env0 (event_request ''message'' ''C2'' ''B1'') world0)) =
     world0
       \<lparr>groups := [\<lparr>group_id = 1, group_name = ''slack-C2''\<rparr>],
        requests := [CreateGroup ''slack-C2'' ''Slack channel collaboration group''
                       ''all_managed_users''],
        console := [LogReceived ''message'' ''syncbot'', LogGetGroup ''C2'', LogSyncing ''C2'' 1,
                    LogAdding ''alice@example.com'' 1],
        response := Some (200, Empty),
        unhandled := [HttpError],
        pending := [AwaitUsers 1 ''alice@example.com'', Settled, AwaitSlackUser 1 ''U2'']\<rparr>"
  by code_simp

section \<open>The claims\<close>

subsection \<open>C1: the membership check of \<open>addGroupUser\<close>\<close>

text \<open>
  C1. The check \<open>addGroupUser\<close> makes before adding a user lists the memberships of the
  user and keeps those whose \<open>user.id\<close> is the user's id, which is every one of them: it
  never compares a membership with the target group. Here alice is a member of group 2
  only. Asked to add her to group 1, \<open>addGroupUser\<close> logs that she is already a member of
  group 1 and sends no request, so she is not added.
\<close>

theorem addGroupUser_skips_member_of_another_group:
  "filter (\<lambda>m. m_group_id m = 1) (users_getGroupMemberships (uid box_alice) world1) = [] \<and>
   enterprise_getUsers env0 (Some ''alice@example.com'') world1 = [box_alice] \<and>
   addGroupUser env0 1 ''alice@example.com'' world1 =
     (Inr (), world1\<lparr>console := [LogAdding ''alice@example.com'' 1,
                                   LogAlreadyMember ''alice@example.com'' 1]\<rparr>)"
  by (simp add: addGroupUser_def enterprise_getUsers_def users_getGroupMemberships_def
      env0_def box_alice_def box_bob_def log_def world1_def world0_def)

subsection \<open>C2: the mirror group of a channel\<close>

text \<open>
  C2. The name of the mirror group of a channel \<open>c\<close> is \<open>slack-\<close> followed by \<open>c\<close>, and a
  second \<open>getGroup\<close> for the same channel, run on the state the first one left, returns the
  same group and creates nothing.
\<close>

theorem getGroup_idempotent:
  "group_name (fst (getGroup c w)) = ''slack-'' @ c \<and>
   fst (getGroup c (snd (getGroup c w))) = fst (getGroup c w) \<and>
   groups (snd (getGroup c (snd (getGroup c w)))) = groups (snd (getGroup c w))"
proof (cases "filter (\<lambda>g. group_name g = ''slack-'' @ c) (groups w)")
  case Nil
  let ?g = "\<lparr>group_id = fresh_id (map group_id (groups w)), group_name = ''slack-'' @ c\<rparr>"
  let ?w' = "snd (getGroup c w)"
  have g: "fst (getGroup c w) = ?g" and gs: "groups ?w' = groups w @ [?g]"
    by (simp_all add: getGroup_absent [OF Nil])
  have "filter (\<lambda>g. group_name g = ''slack-'' @ c) (groups ?w') = [?g]"
    unfolding gs filter_append Nil by simp
  from getGroup_present [OF this] g show ?thesis by simp
next
  case (Cons g gs)
  then have n: "group_name g = ''slack-'' @ c" by (rule filter_ConsD)
  have 1: "getGroup c w = (g, log (LogGetGroup c) w)" by (rule getGroup_present [OF Cons])
  have "filter (\<lambda>g. group_name g = ''slack-'' @ c) (groups (log (LogGetGroup c) w)) = g # gs"
    using Cons by simp
  from getGroup_present [OF this] 1 n show ?thesis by simp
qed

subsection \<open>C3: a user joins a channel\<close>

text \<open>
  C3. A \<open>member_joined_channel\<close> event whose acting user is found, is no bot and has an
  email makes exactly one call of \<open>addGroupUser\<close>, with that email and the id of the mirror
  group of the event's channel.
\<close>

theorem joined_event_one_add_call:
  assumes "event req = Some ev"
    and "ev_type ev = ''member_joined_channel''"
    and "users_info E (ev_user ev) = Resolved (Some u)"
    and "\<not> is_bot u"
    and "email u = Some e"
    and "e \<noteq> []"
  shows "add_calls (console (snd (handleEventCallback E req w))) =
           add_calls (console w) @ [(e, group_id (fst (getGroup (ev_channel ev) w)))] \<and>
         group_name (fst (getGroup (ev_channel ev) w)) = ''slack-'' @ ev_channel ev"
proof -
  have "console (snd (handleEventCallback E req w)) =
          console (snd (syncSlackUsers E (Some u) ''member_joined_channel'' (ev_channel ev) w))"
    using handleEventCallback_console [OF assms(1) assms(3)] assms(2) by simp
  then show ?thesis
    by (simp add: syncSlackUsers_joined [OF assms(4) assms(5) assms(6)] getGroup_name)
qed

text \<open>Witness for C3: alice joins \<open>C1\<close>.\<close>

theorem joined_event_one_add_call_witness:
  "add_calls (console (snd (handleEventCallback env0
      (event_request ''member_joined_channel'' ''C1'' ''U1'') world1))) =
     [(''alice@example.com'', 1)] \<and>
   fst (getGroup ''C1'' world1) = \<lparr>group_id = 1, group_name = ''slack-C1''\<rparr>"
proof -
  have ev: "event (event_request ''member_joined_channel'' ''C1'' ''U1'') =
              Some \<lparr>ev_type = ''member_joined_channel'', ev_channel = ''C1'', ev_user = ''U1''\<rparr>"
    by (simp add: event_request_def)
  have g: "fst (getGroup ''C1'' world1) = \<lparr>group_id = 1, group_name = ''slack-C1''\<rparr>"
    by (simp add: getGroup_eq world1_def world0_def)
  have c: "add_calls (console world1) = []"
    by (simp add: world1_def world0_def)
  show ?thesis
    using joined_event_one_add_call [OF ev, of env0 alice "''alice@example.com''" world1] g c
    by (simp add: env0_def alice_def)
qed

subsection \<open>C4: the roster fan-out\<close>

text \<open>
  C4, amended. When the acting user of an event is a bot, the callbacks of the fan-out go on
  in the order in which the answers to their requests arrive, and the first rejected one
  ends the process. Under every such order, whether all callbacks settle or the run is cut
  short, the calls of \<open>addGroupUser\<close> are calls for members of the list that
  \<open>conversations.members\<close> returns for \<open>limit=100\<close> whose lookup answers with a user that is
  no bot and has a non-empty email, at most one for each such member, with that email and
  the id of the channel's mirror group: a member that is a bot, has no email or cannot be
  looked up gets no call. When every callback has settled and none was rejected, there is
  exactly one call for each such member, and each call has run to its end.
\<close>

theorem bot_event_roster_fanout:
  assumes "event req = Some ev"
    and "users_info E (ev_user ev) = Resolved (Some u)"
    and "is_bot u"
    and "conversations_members E (ev_channel ev) 100 = Resolved (Some ms)"
    and "pending w = []"
  shows "mset (add_calls (console (event_loop E (snd (handleEventCallback E req w))))) \<subseteq>#
           mset (add_calls (console w)) +
           mset (map (\<lambda>e. (e, group_id (fst (getGroup (ev_channel ev) w))))
                  (List.map_filter (roster_email E) ms)) \<and>
         (\<not> exited (event_loop E (snd (handleEventCallback E req w))) \<and>
          (\<forall>t\<in>set (pending (event_loop E (snd (handleEventCallback E req w)))). t = Settled) \<longrightarrow>
            mset (add_calls (console (event_loop E (snd (handleEventCallback E req w))))) =
              mset (add_calls (console w)) +
              mset (map (\<lambda>e. (e, group_id (fst (getGroup (ev_channel ev) w))))
                     (List.map_filter (roster_email E) ms)) \<and>
            mset (add_outcomes (console (event_loop E (snd (handleEventCallback E req w))))) =
              mset (add_outcomes (console w)) + mset (List.map_filter (roster_email E) ms))"
proof -
  let ?g = "group_id (fst (getGroup (ev_channel ev) w))"
  let ?h = "snd (handleEventCallback E req w)"
  let ?w' = "event_loop E ?h"
  note h = handleEventCallback_bot [OF assms(1-4), of w]
  have p: "pending ?h = map (AwaitSlackUser ?g) ms"
    and c: "add_calls (console ?h) = add_calls (console w)"
    and o: "add_outcomes (console ?h) = add_outcomes (console w)"
    by (simp_all add: h assms(5))
  have 1: "mset (add_calls (console ?w')) + due_calls E (pending ?w') =
           mset (add_calls (console w)) +
           mset (map (\<lambda>e. (e, ?g)) (List.map_filter (roster_email E) ms))"
    unfolding event_loop_def run_callbacks_calls p c by (simp add: due_started)
  have a: "mset (add_calls (console ?w')) \<subseteq>#
           mset (add_calls (console w)) +
           mset (map (\<lambda>e. (e, ?g)) (List.map_filter (roster_email E) ms))"
    unfolding 1 [symmetric] by simp
  have b: "mset (add_calls (console ?w')) =
              mset (add_calls (console w)) +
              mset (map (\<lambda>e. (e, ?g)) (List.map_filter (roster_email E) ms)) \<and>
            mset (add_outcomes (console ?w')) =
              mset (add_outcomes (console w)) + mset (List.map_filter (roster_email E) ms)"
    if x: "\<not> exited ?w'" and s: "\<forall>t\<in>set (pending ?w'). t = Settled"
  proof -
    from due_settled [OF s, of E] have d: "due_calls E (pending ?w') = {#}"
      "due_ends E (pending ?w') = {#}" by simp_all
    have 2: "mset (add_outcomes (console ?w')) + due_ends E (pending ?w') =
             mset (add_outcomes (console w)) + mset (List.map_filter (roster_email E) ms)"
      using x run_callbacks_ends [of E "arrivals E" ?h]
      unfolding event_loop_def p o by (simp add: due_started)
    from 1 2 show ?thesis unfolding d by simp
  qed
  from a b show ?thesis by blast
qed

text \<open>Witness for C4: a bot posts in \<open>C3\<close>, whose members are alice, the bot itself, carol
  (no email) and bob. The answers arrive out of turn, bob's first: both are called and
  added, bob before alice.\<close>

theorem bot_event_roster_fanout_witness:
  "\<not> exited (event_loop env3 (snd (handleEventCallback env3
        (event_request ''message'' ''C3'' ''B1'') world0))) \<and>
   pending (event_loop env3 (snd (handleEventCallback env3
        (event_request ''message'' ''C3'' ''B1'') world0))) = [Settled, Settled, Settled, Settled] \<and>
   conversations_members env3 ''C3'' 100 = Resolved (Some [''U1'', ''B1'', ''U3'', ''U2'']) \<and>
   List.map_filter (roster_email env3) [''U1'', ''B1'', ''U3'', ''U2''] =
     [''alice@example.com'', ''bob@example.com''] \<and>
   mset (add_calls (console (event_loop env3 (snd (handleEventCallback env3
        (event_request ''message'' ''C3'' ''B1'') world0))))) =
     {#(''alice@example.com'', 1), (''bob@example.com'', 1)#} \<and>
   mset (add_outcomes (console (event_loop env3 (snd (handleEventCallback env3
        (event_request ''message'' ''C3'' ''B1'') world0))))) =
     {#''alice@example.com'', ''bob@example.com''#} \<and>
   add_calls (console (event_loop env3 (snd (handleEventCallback env3
        (event_request ''message'' ''C3'' ''B1'') world0)))) =
     [(''bob@example.com'', 1), (''alice@example.com'', 1)]"
proof -
  let ?req = "event_request ''message'' ''C3'' ''B1''"
  let ?ev = "\<lparr>ev_type = ''message'', ev_channel = ''C3'', ev_user = ''B1''\<rparr>"
  let ?w' = "event_loop env3 (snd (handleEventCallback env3 ?req world0))"
  have ev: "event ?req = Some ?ev"
    by (simp add: event_request_def)
  have u: "users_info env3 (ev_user ?ev) = Resolved (Some syncbot)"
    by (simp add: env3_def env0_def)
  have b: "is_bot syncbot" by (simp add: syncbot_def)
  have m: "conversations_members env3 (ev_channel ?ev) 100 =
           Resolved (Some [''U1'', ''B1'', ''U3'', ''U2''])"
    by (simp add: env3_def env0_def)
  have p: "pending world0 = []" by (simp add: world0_def)
  have g: "group_id (fst (getGroup (ev_channel ?ev) world0)) = 1"
    by (simp add: getGroup_eq world0_def fresh_id_def)
  have r: "List.map_filter (roster_email env3) [''U1'', ''B1'', ''U3'', ''U2''] =
             [''alice@example.com'', ''bob@example.com'']"
    by (simp add: map_filter_Cons List.map_filter_def roster_email_def env3_def env0_def
        alice_def bob_def carol_def syncbot_def)
  have c: "add_calls (console world0) = []" "add_outcomes (console world0) = []"
    by (simp_all add: world0_def)
  have x: "\<not> exited ?w'" and s: "pending ?w' = [Settled, Settled, Settled, Settled]"
    and l: "add_calls (console ?w') = [(''bob@example.com'', 1), (''alice@example.com'', 1)]"
    unfolding fanout_C3 by (simp_all add: exited_def world0_def)
  from s have s': "\<forall>t\<in>set (pending ?w'). t = Settled" by simp
  from bot_event_roster_fanout [OF ev u b m p] x s'
  have "mset (add_calls (console ?w')) =
          mset (add_calls (console world0)) +
          mset (map (\<lambda>e. (e, group_id (fst (getGroup (ev_channel ?ev) world0))))
                 (List.map_filter (roster_email env3) [''U1'', ''B1'', ''U3'', ''U2''])) \<and>
        mset (add_outcomes (console ?w')) =
          mset (add_outcomes (console world0)) +
          mset (List.map_filter (roster_email env3) [''U1'', ''B1'', ''U3'', ''U2''])"
    by blast
  then have "mset (add_calls (console ?w')) =
               {#(''alice@example.com'', 1), (''bob@example.com'', 1)#} \<and>
             mset (add_outcomes (console ?w')) = {#''alice@example.com'', ''bob@example.com''#}"
    unfolding g r c by simp
  with x s l r m show ?thesis by simp
qed

text \<open>C4 as stated fails when a lookup of the roster is rejected: a bot posts in \<open>C2\<close>,
  whose members are alice, \<open>U8\<close> and bob, and the answers arrive in turn. The rejected
  lookup of \<open>U8\<close> ends the process after alice's call has begun; bob, a non-bot user with an
  email, gets no call.\<close>

theorem fanout_cut_short_counterexample:
  "users_info env0 ''B1'' = Resolved (Some syncbot) \<and> is_bot syncbot \<and>
   conversations_members env0 ''C2'' 100 = Resolved (Some [''U1'', ''U8'', ''U2'']) \<and>
   users_info env0 ''U2'' = Resolved (Some bob) \<and>
   roster_email env0 ''U2'' = Some ''bob@example.com'' \<and>
   exited (event_loop env0 (snd (handleEventCallback env0
      (event_request ''message'' ''C2'' ''B1'') world0))) \<and>
   add_calls (console (event_loop env0 (snd (handleEventCallback env0
      (event_request ''message'' ''C2'' ''B1'') world0)))) = [(''alice@example.com'', 1)]"
proof -
  have "users_info env0 ''B1'' = Resolved (Some syncbot)" "is_bot syncbot"
    "conversations_members env0 ''C2'' 100 = Resolved (Some [''U1'', ''U8'', ''U2''])"
    "users_info env0 ''U2'' = Resolved (Some bob)"
    "roster_email env0 ''U2'' = Some ''bob@example.com''"
    by (simp_all add: env0_def syncbot_def roster_email_def bob_def)
  then show ?thesis
    unfolding fanout_C2 by (simp add: exited_def world0_def)
qed

subsection \<open>C5: a user leaves a channel\<close>

text \<open>
  C5, amended. A \<open>member_left_channel\<close> event whose acting user is found, is no bot and has
  an email makes exactly one call of \<open>removeGroupUser\<close>, with that email and the id of the
  channel's mirror group. If the group has no membership with that login, the handler ends
  without error and the memberships are unchanged.
\<close>

theorem left_event_one_remove_call:
  assumes "event req = Some ev"
    and "ev_type ev = ''member_left_channel''"
    and "users_info E (ev_user ev) = Resolved (Some u)"
    and "\<not> is_bot u"
    and "email u = Some e"
    and "e \<noteq> []"
  shows "remove_calls (console (snd (handleEventCallback E req w))) =
           remove_calls (console w) @ [(e, group_id (fst (getGroup (ev_channel ev) w)))] \<and>
         (filter (\<lambda>m. login (m_user m) = e)
            (filter (\<lambda>m. m_group_id m = group_id (fst (getGroup (ev_channel ev) w)))
               (memberships w)) = [] \<longrightarrow>
          fst (handleEventCallback E req w) = Inr () \<and>
          memberships (snd (handleEventCallback E req w)) = memberships w)"
  by (simp add: handleEventCallback_left [OF assms] removeGroupUser_absent)

text \<open>Witness for C5: alice leaves \<open>C1\<close>, of whose group she is no member.\<close>

theorem left_event_one_remove_call_witness:
  "remove_calls (console (snd (handleEventCallback env0
      (event_request ''member_left_channel'' ''C1'' ''U1'') world1))) =
     [(''alice@example.com'', 1)] \<and>
   filter (\<lambda>m. login (m_user m) = ''alice@example.com'')
     (filter (\<lambda>m. m_group_id m = 1) (memberships world1)) = [] \<and>
   fst (handleEventCallback env0
      (event_request ''member_left_channel'' ''C1'' ''U1'') world1) = Inr () \<and>
   memberships (snd (handleEventCallback env0
      (event_request ''member_left_channel'' ''C1'' ''U1'') world1)) = memberships world1"
proof -
  have ev: "event (event_request ''member_left_channel'' ''C1'' ''U1'') =
              Some \<lparr>ev_type = ''member_left_channel'', ev_channel = ''C1'', ev_user = ''U1''\<rparr>"
    by (simp add: event_request_def)
  have g: "fst (getGroup ''C1'' world1) = \<lparr>group_id = 1, group_name = ''slack-C1''\<rparr>"
    by (simp add: getGroup_eq world1_def world0_def)
  have c: "remove_calls (console world1) = []"
    by (simp add: world1_def world0_def)
  have m: "filter (\<lambda>m. login (m_user m) = ''alice@example.com'')
     (filter (\<lambda>m. m_group_id m = 1) (memberships world1)) = []"
    by (simp add: world1_def world0_def)
  have u: "users_info env0
             (ev_user \<lparr>ev_type = ''member_left_channel'', ev_channel = ''C1'', ev_user = ''U1''\<rparr>) =
           Resolved (Some alice)"
    by (simp add: env0_def)
  have a: "\<not> is_bot alice" "email alice = Some ''alice@example.com''"
    by (simp_all add: alice_def)
  have t: "ev_type \<lparr>ev_type = ''member_left_channel'', ev_channel = ''C1'', ev_user = ''U1''\<rparr> =
             ''member_left_channel''"
    by simp
  from left_event_one_remove_call [OF ev t u a, of world1] g c m show ?thesis
    by simp
qed

text \<open>C5 as stated fails for an acting user without an email: carol leaves \<open>C1\<close>, the
  handler ends without error and \<open>removeGroupUser\<close> is not called.\<close>

theorem left_event_without_email_counterexample:
  "ev_type \<lparr>ev_type = ''member_left_channel'', ev_channel = ''C1'', ev_user = ''U3''\<rparr> =
     ''member_left_channel'' \<and>
   event (event_request ''member_left_channel'' ''C1'' ''U3'') =
     Some \<lparr>ev_type = ''member_left_channel'', ev_channel = ''C1'', ev_user = ''U3''\<rparr> \<and>
   fst (handleEventCallback env0 (event_request ''member_left_channel'' ''C1'' ''U3'') world1) = Inr () \<and>
   remove_calls (console (snd (handleEventCallback env0
      (event_request ''member_left_channel'' ''C1'' ''U3'') world1))) = []"
  by (simp add: handleEventCallback_def event_request_def getSlackUser_def env0_def carol_def
      syncSlackUsers_def Let_def case_prod_unfold res_send_def world1_def world0_def)

subsection \<open>C6: the slash command\<close>

text \<open>
  C6, amended. For a \<open>/boxadd\<close> text that passes the check, a requester who is found and has
  an email, and a response not yet sent: if the search for that email finds a storage user,
  exactly one collaboration request is sent, for the channel's mirror group with role
  \<open>VIEWER\<close> and the item type and id of the text, and the response is the success message
  when the platform accepts the request and the failure message when it rejects it; if the
  search finds nobody, the response is the not-found message and no collaboration request
  is sent.
\<close>

theorem boxadd_collaboration:
  assumes "body_text req = Some txt"
    and "\<not> invalid_input (hd (split_on CHR '' '' txt)) (second (split_on CHR '' '' txt))"
    and "users_info E (user_id req) = Resolved (Some su)"
    and "email su = Some e"
    and "response w = None"
  shows "(enterprise_getUsers E (Some e) w = bu # bus \<longrightarrow>
            collaboration_calls (requests (snd (handleCommand E req w))) =
              collaboration_calls (requests w) @ [requested req txt (uid bu) w] \<and>
            c_role (requested req txt (uid bu) w) = VIEWER \<and>
            c_item_type (requested req txt (uid bu) w) = hd (split_on CHR '' '' txt) \<and>
            c_item_id (requested req txt (uid bu) w) = second (split_on CHR '' '' txt) \<and>
            response (snd (handleCommand E req w)) =
              Some (200, Text (if collaboration_accepted E (requested req txt (uid bu) w)
                               then ''Provided all users with access to item''
                               else ''Could not provide all users access''))) \<and>
         (enterprise_getUsers E (Some e) w = [] \<longrightarrow>
            collaboration_calls (requests (snd (handleCommand E req w))) =
              collaboration_calls (requests w) \<and>
            response (snd (handleCommand E req w)) =
              Some (200, Text (''Could not find a Box user with email '' @ e)))"
proof (intro conjI impI)
  assume f: "enterprise_getUsers E (Some e) w = bu # bus"
  then have f': "enterprise_getUsers E (email su) w = bu # bus" by (simp add: assms(4))
  note h = handleCommand_found [OF assms(1) assms(2) assms(3) f' assms(5)]
  show "collaboration_calls (requests (snd (handleCommand E req w))) =
          collaboration_calls (requests w) @ [requested req txt (uid bu) w]"
    by (simp add: h asUser_def getGroup_requests)
  show "response (snd (handleCommand E req w)) =
          Some (200, Text (if collaboration_accepted E (requested req txt (uid bu) w)
                           then ''Provided all users with access to item''
                           else ''Could not provide all users access''))"
    by (simp add: h)
  show "c_role (requested req txt (uid bu) w) = VIEWER"
    "c_item_type (requested req txt (uid bu) w) = hd (split_on CHR '' '' txt)"
    "c_item_id (requested req txt (uid bu) w) = second (split_on CHR '' '' txt)"
    by (simp_all add: requested_def)
next
  assume "enterprise_getUsers E (Some e) w = []"
  then have n: "enterprise_getUsers E (email su) w = []" by (simp add: assms(4))
  note h = handleCommand_not_found [OF assms(1) assms(2) assms(3) n]
  show "collaboration_calls (requests (snd (handleCommand E req w))) =
          collaboration_calls (requests w)"
    by (simp add: h getGroup_requests)
  show "response (snd (handleCommand E req w)) =
          Some (200, Text (''Could not find a Box user with email '' @ e))"
    using assms(5) by (simp add: h assms(4) res_send_def)
qed

text \<open>Witness for C6: alice grants \<open>C1\<close> access to file \<open>123456\<close>; and the same command in
  an enterprise that does not know her.\<close>

theorem boxadd_collaboration_witness:
  "enterprise_getUsers env0 (Some ''alice@example.com'') world1 = [box_alice] \<and>
   collaboration_calls (requests (snd (handleCommand env0
      (command_request ''C1'' ''U1'' ''file 123456'') world1))) =
     [\<lparr>c_group_id = 1, c_item_id = Some ''123456'', c_role = VIEWER, c_item_type = ''file'',
       c_as_user = Some 11\<rparr>] \<and>
   response (snd (handleCommand env0 (command_request ''C1'' ''U1'' ''file 123456'') world1)) =
     Some (200, Text ''Provided all users with access to item'') \<and>
   enterprise_getUsers env0 (Some ''alice@example.com'')
     (world1\<lparr>enterprise_users := [box_bob]\<rparr>) = [] \<and>
   collaboration_calls (requests (snd (handleCommand env0
      (command_request ''C1'' ''U1'' ''file 123456'')
      (world1\<lparr>enterprise_users := [box_bob]\<rparr>)))) = [] \<and>
   response (snd (handleCommand env0 (command_request ''C1'' ''U1'' ''file 123456'')
      (world1\<lparr>enterprise_users := [box_bob]\<rparr>))) =
     Some (200, Text ''Could not find a Box user with email alice@example.com'')"
proof -
  let ?w = "world1\<lparr>enterprise_users := [box_bob]\<rparr>"
  have t: "body_text (command_request ''C1'' ''U1'' ''file 123456'') = Some ''file 123456''"
    by (simp add: command_request_def)
  have v: "\<not> invalid_input (hd (split_on CHR '' '' ''file 123456''))
              (second (split_on CHR '' '' ''file 123456''))"
    using valid_file_123456 by simp
  have u: "users_info env0 (user_id (command_request ''C1'' ''U1'' ''file 123456'')) =
             Resolved (Some alice)"
    by (simp add: env0_def command_request_def)
  have e: "email alice = Some ''alice@example.com''" by (simp add: alice_def)
  have r: "response world1 = None" "collaboration_calls (requests world1) = []"
    "response ?w = None" "collaboration_calls (requests ?w) = []"
    by (simp_all add: world1_def world0_def)
  have b: "enterprise_getUsers env0 (Some ''alice@example.com'') world1 = [box_alice]"
    by (simp add: enterprise_getUsers_def env0_def world1_def world0_def box_alice_def box_bob_def)
  have n: "enterprise_getUsers env0 (Some ''alice@example.com'') ?w = []"
    by (simp add: enterprise_getUsers_def env0_def box_bob_def)
  have q: "requested (command_request ''C1'' ''U1'' ''file 123456'') ''file 123456''
             (uid box_alice) world1 =
     \<lparr>c_group_id = 1, c_item_id = Some ''123456'', c_role = VIEWER, c_item_type = ''file'',
       c_as_user = Some 11\<rparr>"
    by (simp add: requested_def command_request_def getGroup_eq world1_def world0_def box_alice_def)
  have acc: "collaboration_accepted env0 \<lparr>c_group_id = 1, c_item_id = Some ''123456'',
       c_role = VIEWER, c_item_type = ''file'', c_as_user = Some 11\<rparr>"
    by (simp add: env0_def)
  from boxadd_collaboration [OF t v u e r(1), of box_alice "[]"] b q r(2) acc
  have 1: "collaboration_calls (requests (snd (handleCommand env0
      (command_request ''C1'' ''U1'' ''file 123456'') world1))) =
     [\<lparr>c_group_id = 1, c_item_id = Some ''123456'', c_role = VIEWER, c_item_type = ''file'',
       c_as_user = Some 11\<rparr>] \<and>
   response (snd (handleCommand env0 (command_request ''C1'' ''U1'' ''file 123456'') world1)) =
     Some (200, Text ''Provided all users with access to item'')"
    by simp
  from boxadd_collaboration [OF t v u e r(3), of box_alice "[]"] n r(4)
  have 2: "collaboration_calls (requests (snd (handleCommand env0
      (command_request ''C1'' ''U1'' ''file 123456'') ?w))) = [] \<and>
   response (snd (handleCommand env0 (command_request ''C1'' ''U1'' ''file 123456'') ?w)) =
     Some (200, Text ''Could not find a Box user with email alice@example.com'')"
    by simp
  from 1 2 b n show ?thesis by simp
qed

text \<open>C6 as stated fails when the platform rejects the collaboration: alice asks for file
  \<open>999\<close>, which the platform does not know. The text is valid, she is found on both
  platforms, one collaboration request is sent, and the response is the failure
  message.\<close>

theorem boxadd_rejected_collaboration_counterexample:
  "\<not> invalid_input (hd (split_on CHR '' '' ''file 999'')) (second (split_on CHR '' '' ''file 999'')) \<and>
   users_info env0 ''U1'' = Resolved (Some alice) \<and>
   enterprise_getUsers env0 (email alice) world1 = [box_alice] \<and>
   collaboration_calls (requests (snd (handleCommand env0
      (command_request ''C1'' ''U1'' ''file 999'') world1))) =
     [\<lparr>c_group_id = 1, c_item_id = Some ''999'', c_role = VIEWER, c_item_type = ''file'',
       c_as_user = Some 11\<rparr>] \<and>
   response (snd (handleCommand env0 (command_request ''C1'' ''U1'' ''file 999'') world1)) =
     Some (200, Text ''Could not provide all users access'')"
proof -
  have t: "body_text (command_request ''C1'' ''U1'' ''file 999'') = Some ''file 999''"
    by (simp add: command_request_def)
  have v: "\<not> invalid_input (hd (split_on CHR '' '' ''file 999''))
              (second (split_on CHR '' '' ''file 999''))"
    using valid_file_999 by simp
  have u: "users_info env0 (user_id (command_request ''C1'' ''U1'' ''file 999'')) =
             Resolved (Some alice)"
    by (simp add: env0_def command_request_def)
  have b: "enterprise_getUsers env0 (email alice) world1 = [box_alice]"
    by (simp add: enterprise_getUsers_def env0_def world1_def world0_def box_alice_def
        box_bob_def alice_def)
  have r: "response world1 = None" "requests world1 = []" "collaborations world1 = []"
    by (simp_all add: world1_def world0_def)
  have q: "requested (command_request ''C1'' ''U1'' ''file 999'') ''file 999'' (uid box_alice) world1 =
     \<lparr>c_group_id = 1, c_item_id = Some ''999'', c_role = VIEWER, c_item_type = ''file'',
       c_as_user = Some 11\<rparr>"
    by (simp add: requested_def command_request_def getGroup_eq world1_def world0_def box_alice_def)
  have acc: "\<not> collaboration_accepted env0 \<lparr>c_group_id = 1, c_item_id = Some ''999'',
       c_role = VIEWER, c_item_type = ''file'', c_as_user = Some 11\<rparr>"
    by (simp add: env0_def)
  have h: "handleCommand env0 (command_request ''C1'' ''U1'' ''file 999'') world1 =
     (Inr (), (request (CreateCollaboration \<lparr>c_group_id = 1, c_item_id = Some ''999'',
                 c_role = VIEWER, c_item_type = ''file'', c_as_user = Some 11\<rparr>)
                (asUser (uid box_alice) (snd (getGroup (channel_id (command_request ''C1'' ''U1'' ''file 999'')) world1))))
              \<lparr>response := Some (200, Text ''Could not provide all users access'')\<rparr>)"
    using handleCommand_found [OF t v u b r(1)] acc unfolding q by simp
  have g: "requests (snd (getGroup (channel_id (command_request ''C1'' ''U1'' ''file 999'')) world1)) = []"
    by (simp add: getGroup_requests command_request_def world1_def world0_def)
  have u0: "users_info env0 ''U1'' = Resolved (Some alice)"
    by (simp add: env0_def)
  show ?thesis
    using v b u0 by (simp add: h asUser_def g)
qed

subsection \<open>C7: the two error responses do not stop the handler\<close>

text \<open>
  C7, amended. When the token of a request is not the configured secret, the response
  \<open>400 Slack Verification Failed\<close> is sent and the request is classified and handled all
  the same: a URL verification writes its console line; an event callback leaves behind,
  the response apart, what \<open>handleEventCallback\<close> leaves behind, so a join event of a
  non-bot user with an email makes its call of \<open>addGroupUser\<close>; a slash command whose text
  passes the check leaves behind what \<open>handleCommand\<close> leaves behind, so the collaboration
  request is sent when requester and storage user are found. When the text of a slash
  command fails the check, on a response not yet sent, the usage message is the response
  and the rest of \<open>handleCommand\<close> runs: the mirror group is found or created and, if the
  requester and the storage user are found, the collaboration request is sent, with the
  type and id as they were given, as that user.
\<close>

theorem fall_through_after_error_response:
  "(token req \<noteq> Some (verificationToken E) \<and> response w = None \<longrightarrow>
      response (snd (post_event E req w)) = Some (400, Text ''Slack Verification Failed'') \<and>
      (body_type req = Some ''url_verification'' \<longrightarrow>
         console (snd (post_event E req w)) = console w @ [LogUrlVerification]) \<and>
      (body_type req = Some ''event_callback'' \<longrightarrow>
         effects (snd (post_event E req w)) = effects (snd (handleEventCallback E req w)) \<and>
         (event req = Some ev \<and> ev_type ev = ''member_joined_channel'' \<and>
          users_info E (ev_user ev) = Resolved (Some u) \<and> \<not> is_bot u \<and>
          email u = Some e \<and> e \<noteq> [] \<longrightarrow>
            add_calls (console (snd (post_event E req w))) =
              add_calls (console w) @ [(e, group_id (fst (getGroup (ev_channel ev) w)))])) \<and>
      (body_type req \<noteq> Some ''url_verification'' \<and> body_type req \<noteq> Some ''event_callback'' \<and>
       command req = Some ''/boxadd'' \<and> \<not> usage_error req \<longrightarrow>
         effects (snd (post_event E req w)) = effects (snd (handleCommand E req w)) \<and>
         (body_text req = Some tx \<and> users_info E (user_id req) = Resolved (Some su) \<and>
          enterprise_getUsers E (email su) w = bu # bus \<longrightarrow>
            collaboration_calls (requests (snd (post_event E req w))) =
              collaboration_calls (requests w) @ [requested req tx (uid bu) w]))) \<and>
   (body_text req = Some tx \<and>
    invalid_input (hd (split_on CHR '' '' tx)) (second (split_on CHR '' '' tx)) \<and>
    response w = None \<longrightarrow>
      response (snd (handleCommand E req w)) =
        Some (200, Text ''Invalid input. Example usage: /boxadd file 123456'') \<and>
      groups (snd (handleCommand E req w)) =
        (if filter (\<lambda>g. group_name g = ''slack-'' @ channel_id req) (groups w) = []
         then groups w @
                [\<lparr>group_id = fresh_id (map group_id (groups w)),
                  group_name = ''slack-'' @ channel_id req\<rparr>]
         else groups w) \<and>
      (users_info E (user_id req) = Resolved (Some su) \<and>
       enterprise_getUsers E (email su) w = bu # bus \<longrightarrow>
         collaboration_calls (requests (snd (handleCommand E req w))) =
           collaboration_calls (requests w) @ [requested req tx (uid bu) w] \<and>
         acting_as (snd (handleCommand E req w)) = Some (uid bu)))"
proof (intro conjI impI)
  assume a: "token req \<noteq> Some (verificationToken E) \<and> response w = None"
  then have t: "token req \<noteq> Some (verificationToken E)" and f: "response w = None"
    by blast+
  show "response (snd (post_event E req w)) = Some (400, Text ''Slack Verification Failed'')"
    by (rule unverified_response [OF t f])
  {
    assume "body_type req = Some ''url_verification''"
    then show "console (snd (post_event E req w)) = console w @ [LogUrlVerification]"
      by (rule unverified_url [OF t f])
  }
  {
    assume b: "body_type req = Some ''event_callback''"
    show "effects (snd (post_event E req w)) = effects (snd (handleEventCallback E req w))"
      by (rule unverified_event [OF t f b])
    assume "event req = Some ev \<and> ev_type ev = ''member_joined_channel'' \<and>
          users_info E (ev_user ev) = Resolved (Some u) \<and> \<not> is_bot u \<and>
          email u = Some e \<and> e \<noteq> []"
    then have "event req = Some ev" "ev_type ev = ''member_joined_channel''"
      "users_info E (ev_user ev) = Resolved (Some u)" "\<not> is_bot u" "email u = Some e" "e \<noteq> []"
      by blast+
    then show "add_calls (console (snd (post_event E req w))) =
              add_calls (console w) @ [(e, group_id (fst (getGroup (ev_channel ev) w)))]"
      by (rule unverified_join [OF t f b])
  }
  {
    assume "body_type req \<noteq> Some ''url_verification'' \<and> body_type req \<noteq> Some ''event_callback'' \<and>
       command req = Some ''/boxadd'' \<and> \<not> usage_error req"
    then have c: "body_type req \<noteq> Some ''url_verification''"
      "body_type req \<noteq> Some ''event_callback''" "command req = Some ''/boxadd''"
      "\<not> usage_error req"
      by blast+
    show "effects (snd (post_event E req w)) = effects (snd (handleCommand E req w))"
      by (rule unverified_command [OF t f c])
    assume "body_text req = Some tx \<and> users_info E (user_id req) = Resolved (Some su) \<and>
          enterprise_getUsers E (email su) w = bu # bus"
    then have "body_text req = Some tx" "users_info E (user_id req) = Resolved (Some su)"
      "enterprise_getUsers E (email su) w = bu # bus"
      by blast+
    then show "collaboration_calls (requests (snd (post_event E req w))) =
              collaboration_calls (requests w) @ [requested req tx (uid bu) w]"
      by (rule unverified_collaboration [OF t f c])
  }
next
  assume b: "body_text req = Some tx \<and>
    invalid_input (hd (split_on CHR '' '' tx)) (second (split_on CHR '' '' tx)) \<and>
    response w = None"
  then have b': "body_text req = Some tx"
    "invalid_input (hd (split_on CHR '' '' tx)) (second (split_on CHR '' '' tx))"
    "response w = None"
    by blast+
  note r = handleCommand_invalid_runs [OF b', of E]
  from r show "response (snd (handleCommand E req w)) =
        Some (200, Text ''Invalid input. Example usage: /boxadd file 123456'')" by simp
  from r show "groups (snd (handleCommand E req w)) =
        (if filter (\<lambda>g. group_name g = ''slack-'' @ channel_id req) (groups w) = []
         then groups w @
                [\<lparr>group_id = fresh_id (map group_id (groups w)),
                  group_name = ''slack-'' @ channel_id req\<rparr>]
         else groups w)"
    by (simp only: getGroup_groups)
  assume f: "users_info E (user_id req) = Resolved (Some su) \<and>
       enterprise_getUsers E (email su) w = bu # bus"
  then have f': "users_info E (user_id req) = Resolved (Some su)"
    "enterprise_getUsers E (email su) w = bu # bus"
    by blast+
  note h = handleCommand_invalid_found [OF b' f']
  show "collaboration_calls (requests (snd (handleCommand E req w))) =
           collaboration_calls (requests w) @ [requested req tx (uid bu) w]"
    by (simp add: h asUser_def getGroup_requests)
  show "acting_as (snd (handleCommand E req w)) = Some (uid bu)"
    by (simp add: h asUser_def)
qed

text \<open>Witness for C7: bob's join event with a wrong token, which adds him to the group of
  \<open>C1\<close>, and alice's command \<open>/boxadd badtype abc\<close>.\<close>

theorem fall_through_after_error_response_witness:
  "token ((event_request ''member_joined_channel'' ''C1'' ''U2'')\<lparr>token := Some ''wrong''\<rparr>) \<noteq>
     Some (verificationToken env0) \<and>
   response (snd (post_event env0
      ((event_request ''member_joined_channel'' ''C1'' ''U2'')\<lparr>token := Some ''wrong''\<rparr>) world1)) =
     Some (400, Text ''Slack Verification Failed'') \<and>
   add_calls (console (snd (post_event env0
      ((event_request ''member_joined_channel'' ''C1'' ''U2'')\<lparr>token := Some ''wrong''\<rparr>) world1))) =
     [(''bob@example.com'', 1)] \<and>
   snd (post_event env0
      ((event_request ''member_joined_channel'' ''C1'' ''U2'')\<lparr>token := Some ''wrong''\<rparr>) world1) =
     world1
       \<lparr>memberships := [\<lparr>membership_id = 1, m_user = box_alice, m_group_id = 2\<rparr>,
                        \<lparr>membership_id = 2, m_user = box_bob, m_group_id = 1\<rparr>],
        requests := [AddUser 1 12 MEMBER],
        console := [LogReceived ''member_joined_channel'' ''bob'', LogGetGroup ''C1'',
                    LogAdding ''bob@example.com'' 1, LogAdded ''bob@example.com'' 1],
        response := Some (400, Text ''Slack Verification Failed'')\<rparr> \<and>
   invalid_input (hd (split_on CHR '' '' ''badtype abc'')) (second (split_on CHR '' '' ''badtype abc'')) \<and>
   response (snd (handleCommand env0 (command_request ''C1'' ''U1'' ''badtype abc'') world1)) =
     Some (200, Text ''Invalid input. Example usage: /boxadd file 123456'') \<and>
   collaboration_calls (requests (snd (handleCommand env0
      (command_request ''C1'' ''U1'' ''badtype abc'') world1))) =
     [\<lparr>c_group_id = 1, c_item_id = Some ''abc'', c_role = VIEWER, c_item_type = ''badtype'',
       c_as_user = Some 11\<rparr>]"
proof -
  let ?bad = "(event_request ''member_joined_channel'' ''C1'' ''U2'')\<lparr>token := Some ''wrong''\<rparr>"
  let ?ev = "\<lparr>ev_type = ''member_joined_channel'', ev_channel = ''C1'', ev_user = ''U2''\<rparr>"
  let ?cmd = "command_request ''C1'' ''U1'' ''badtype abc''"
  have t: "token ?bad \<noteq> Some (verificationToken env0)"
    by (simp add: env0_def)
  have r: "response world1 = None" "collaboration_calls (requests world1) = []"
    "add_calls (console world1) = []"
    by (simp_all add: world1_def world0_def)
  have k: "body_type ?bad = Some ''event_callback''" "event ?bad = Some ?ev"
    by (simp_all add: event_request_def)
  have j: "ev_type ?ev = ''member_joined_channel''"
    "users_info env0 (ev_user ?ev) = Resolved (Some bob)"
    "\<not> is_bot bob" "email bob = Some ''bob@example.com''" "''bob@example.com'' \<noteq> []"
    by (simp_all add: env0_def bob_def)
  have g: "group_id (fst (getGroup (ev_channel ?ev) world1)) = 1"
    by (simp add: getGroup_eq world1_def world0_def)
  have x: "body_text ?cmd = Some ''badtype abc''"
    by (simp add: command_request_def)
  have i: "invalid_input (hd (split_on CHR '' '' ''badtype abc''))
             (second (split_on CHR '' '' ''badtype abc''))"
    using invalid_badtype_abc by simp
  have u: "users_info env0 (user_id ?cmd) = Resolved (Some alice)"
    by (simp add: env0_def command_request_def)
  have b: "enterprise_getUsers env0 (email alice) world1 = box_alice # []"
    by (simp add: enterprise_getUsers_def env0_def world1_def world0_def box_alice_def
        box_bob_def alice_def)
  have q: "requested ?cmd ''badtype abc'' (uid box_alice) world1 =
     \<lparr>c_group_id = 1, c_item_id = Some ''abc'', c_role = VIEWER, c_item_type = ''badtype'',
       c_as_user = Some 11\<rparr>"
    by (simp add: requested_def command_request_def getGroup_eq world1_def world0_def box_alice_def)
  from fall_through_after_error_response
         [of ?bad env0 world1 ?ev bob "''bob@example.com''" "''badtype abc''" alice box_alice "[]"]
    t r(1) k j
  have a: "response (snd (post_event env0 ?bad world1)) =
             Some (400, Text ''Slack Verification Failed'') \<and>
           add_calls (console (snd (post_event env0 ?bad world1))) =
             add_calls (console world1) @
             [(''bob@example.com'', group_id (fst (getGroup (ev_channel ?ev) world1)))]"
    by blast
  from fall_through_after_error_response
         [of ?cmd env0 world1 ?ev bob "''bob@example.com''" "''badtype abc''" alice box_alice "[]"]
    x i r(1) u b
  have c: "response (snd (handleCommand env0 ?cmd world1)) =
             Some (200, Text ''Invalid input. Example usage: /boxadd file 123456'') \<and>
           collaboration_calls (requests (snd (handleCommand env0 ?cmd world1))) =
             collaboration_calls (requests world1) @
             [requested ?cmd ''badtype abc'' (uid box_alice) world1]"
    by blast
  have full: "snd (post_event env0 ?bad world1) =
     world1
       \<lparr>memberships := [\<lparr>membership_id = 1, m_user = box_alice, m_group_id = 2\<rparr>,
                        \<lparr>membership_id = 2, m_user = box_bob, m_group_id = 1\<rparr>],
        requests := [AddUser 1 12 MEMBER],
        console := [LogReceived ''member_joined_channel'' ''bob'', LogGetGroup ''C1'',
                    LogAdding ''bob@example.com'' 1, LogAdded ''bob@example.com'' 1],
        response := Some (400, Text ''Slack Verification Failed'')\<rparr>"
    by code_simp
  from a c t i full show ?thesis unfolding g q r(2) r(3) by simp
qed

text \<open>C7 as stated fails when both checks fail at once: \<open>/boxadd badtype abc\<close> with a wrong
  token. The \<open>400\<close> response is sent, \<open>handleCommand\<close> is called, and its usage message
  throws on the response already sent: no usage response, no group looked up, no request,
  nothing logged.\<close>

theorem wrong_token_invalid_text_counterexample:
  "token ((command_request ''C1'' ''U1'' ''badtype abc'')\<lparr>token := Some ''wrong''\<rparr>) \<noteq>
     Some (verificationToken env0) \<and>
   command ((command_request ''C1'' ''U1'' ''badtype abc'')\<lparr>token := Some ''wrong''\<rparr>) =
     Some ''/boxadd'' \<and>
   invalid_input (hd (split_on CHR '' '' ''badtype abc'')) (second (split_on CHR '' '' ''badtype abc'')) \<and>
   response world1 = None \<and> console world1 = [] \<and> requests world1 = [] \<and>
   post_event env0 ((command_request ''C1'' ''U1'' ''badtype abc'')\<lparr>token := Some ''wrong''\<rparr>) world1 =
     (Inl HeadersSent, world1\<lparr>response := Some (400, Text ''Slack Verification Failed'')\<rparr>)"
  by (simp add: post_event_def handleCommand_def res_send_def command_request_def env0_def
      invalid_input_def world1_def world0_def Let_def)

subsection \<open>C8: a lookup of a chat user fails\<close>

text \<open>
  C8, amended. A lookup whose request is rejected (a non-2xx answer) is not logged and is
  not turned into a missing user: the rejection goes to the caller. \<open>handleEventCallback\<close> ends with
  it, leaving the world as it was and sending no response; \<open>handleCommand\<close>, for a text
  that passes the check, ends with it after the group lookup, sending no response; a
  callback of the roster fan-out is rejected with it, which ends the process, so that no
  other callback goes on. A lookup whose answer carries no user is logged as
  \<open>No user data found\<close> and gives the caller no data.
\<close>

theorem failed_lookup_outcomes:
  "(users_info E i = Rejected \<longrightarrow> getSlackUser E i w = (Inl HttpError, w)) \<and>
   (users_info E i = Resolved None \<longrightarrow> getSlackUser E i w = (Inr None, log LogNoUserData w)) \<and>
   (event req = Some ev \<and> users_info E (ev_user ev) = Rejected \<longrightarrow>
      handleEventCallback E req w = (Inl HttpError, w)) \<and>
   (body_text req = Some tx \<and>
    \<not> invalid_input (hd (split_on CHR '' '' tx)) (second (split_on CHR '' '' tx)) \<and>
    users_info E (user_id req) = Rejected \<longrightarrow>
      handleCommand E req w = (Inl HttpError, snd (getGroup (channel_id req) w))) \<and>
   (\<not> exited w \<and> k < length (pending w) \<and> pending w ! k = AwaitSlackUser g i \<and>
    users_info E i = Rejected \<longrightarrow>
      answer E k w = w\<lparr>pending := (pending w)[k := Settled], unhandled := [HttpError]\<rparr> \<and>
      exited (answer E k w) \<and>
      run_callbacks E s (answer E k w) = answer E k w)"
proof (intro conjI impI)
  assume "users_info E i = Rejected"
  then show "getSlackUser E i w = (Inl HttpError, w)" by (simp add: getSlackUser_def)
next
  assume "users_info E i = Resolved None"
  then show "getSlackUser E i w = (Inr None, log LogNoUserData w)"
    by (simp add: getSlackUser_def)
next
  assume "event req = Some ev \<and> users_info E (ev_user ev) = Rejected"
  then show "handleEventCallback E req w = (Inl HttpError, w)"
    by (simp add: handleEventCallback_def getSlackUser_def)
next
  assume "body_text req = Some tx \<and>
    \<not> invalid_input (hd (split_on CHR '' '' tx)) (second (split_on CHR '' '' tx)) \<and>
    users_info E (user_id req) = Rejected"
  then show "handleCommand E req w = (Inl HttpError, snd (getGroup (channel_id req) w))"
    by (simp add: handleCommand_def Let_def case_prod_unfold getSlackUser_def)
next
  assume a: "\<not> exited w \<and> k < length (pending w) \<and> pending w ! k = AwaitSlackUser g i \<and>
    users_info E i = Rejected"
  then show 1: "answer E k w = w\<lparr>pending := (pending w)[k := Settled], unhandled := [HttpError]\<rparr>"
    by (simp add: answer_def getSlackUser_def exited_def)
  then show 2: "exited (answer E k w)" by (simp add: exited_def)
  from 2 show "run_callbacks E s (answer E k w) = answer E k w"
    by (rule run_callbacks_exited)
qed

text \<open>Witness for C8: the lookups of \<open>U8\<close> (rejected) and \<open>U9\<close> (no user), in
  \<open>getSlackUser\<close>, in the two handlers and in a fan-out over \<open>U8\<close> and bob.\<close>

theorem failed_lookup_outcomes_witness:
  "users_info env0 ''U8'' = Rejected \<and>
   getSlackUser env0 ''U8'' world1 = (Inl HttpError, world1) \<and>
   users_info env0 ''U9'' = Resolved None \<and>
   getSlackUser env0 ''U9'' world1 = (Inr None, log LogNoUserData world1) \<and>
   handleEventCallback env0 (event_request ''member_joined_channel'' ''C1'' ''U8'') world1 =
     (Inl HttpError, world1) \<and>
   handleCommand env0 (command_request ''C1'' ''U8'' ''file 123456'') world1 =
     (Inl HttpError, world1\<lparr>console := [LogGetGroup ''C1'']\<rparr>) \<and>
   answer env0 0 (world1\<lparr>pending := [AwaitSlackUser 1 ''U8'', AwaitSlackUser 1 ''U2'']\<rparr>) =
     world1\<lparr>pending := [Settled, AwaitSlackUser 1 ''U2''], unhandled := [HttpError]\<rparr> \<and>
   run_callbacks env0 [1, 1, 1, 1]
     (answer env0 0 (world1\<lparr>pending := [AwaitSlackUser 1 ''U8'', AwaitSlackUser 1 ''U2'']\<rparr>)) =
     world1\<lparr>pending := [Settled, AwaitSlackUser 1 ''U2''], unhandled := [HttpError]\<rparr>"
proof -
  let ?req = "event_request ''member_joined_channel'' ''C1'' ''U8''"
  let ?ev = "\<lparr>ev_type = ''member_joined_channel'', ev_channel = ''C1'', ev_user = ''U8''\<rparr>"
  let ?cmd = "command_request ''C1'' ''U8'' ''file 123456''"
  let ?w = "world1\<lparr>pending := [AwaitSlackUser 1 ''U8'', AwaitSlackUser 1 ''U2'']\<rparr>"
  have r: "users_info env0 ''U8'' = Rejected" and n: "users_info env0 ''U9'' = Resolved None"
    by (simp_all add: env0_def)
  have ev: "event ?req = Some ?ev" "users_info env0 (ev_user ?ev) = Rejected"
    by (simp_all add: event_request_def env0_def)
  have c: "body_text ?cmd = Some ''file 123456''"
    "\<not> invalid_input (hd (split_on CHR '' '' ''file 123456''))
        (second (split_on CHR '' '' ''file 123456''))"
    "users_info env0 (user_id ?cmd) = Rejected"
    using valid_file_123456 by (simp_all add: command_request_def env0_def)
  have g: "snd (getGroup (channel_id ?cmd) world1) = world1\<lparr>console := [LogGetGroup ''C1'']\<rparr>"
    by (simp add: getGroup_eq command_request_def log_def world1_def world0_def)
  from failed_lookup_outcomes [of env0 "''U8''" world1 ?req ?ev "''file 123456''" 0 1 "[]"] r ev
  have 1: "getSlackUser env0 ''U8'' world1 = (Inl HttpError, world1) \<and>
           handleEventCallback env0 ?req world1 = (Inl HttpError, world1)"
    by blast
  from failed_lookup_outcomes [of env0 "''U9''" world1 ?req ?ev "''file 123456''" 0 1 "[]"] n
  have 2: "getSlackUser env0 ''U9'' world1 = (Inr None, log LogNoUserData world1)"
    by blast
  from failed_lookup_outcomes [of env0 "''U8''" world1 ?cmd ?ev "''file 123456''" 0 1 "[]"] c
  have 3: "handleCommand env0 ?cmd world1 = (Inl HttpError, snd (getGroup (channel_id ?cmd) world1))"
    by blast
  have p: "\<not> exited ?w" "0 < length (pending ?w)" "pending ?w ! 0 = AwaitSlackUser 1 ''U8''"
    by (simp_all add: exited_def world1_def world0_def)
  from failed_lookup_outcomes [of env0 "''U8''" ?w ?req ?ev "''file 123456''" 0 1 "[1, 1, 1, 1]"] p r
  have 4: "answer env0 0 ?w = ?w\<lparr>pending := (pending ?w)[0 := Settled], unhandled := [HttpError]\<rparr> \<and>
           run_callbacks env0 [1, 1, 1, 1] (answer env0 0 ?w) = answer env0 0 ?w"
    by blast
  then have 5: "answer env0 0 ?w =
                  world1\<lparr>pending := [Settled, AwaitSlackUser 1 ''U2''], unhandled := [HttpError]\<rparr>"
    by simp
  from 4 have "run_callbacks env0 [1, 1, 1, 1] (answer env0 0 ?w) = answer env0 0 ?w"
    by blast
  then have 6: "run_callbacks env0 [1, 1, 1, 1] (answer env0 0 ?w) =
                  world1\<lparr>pending := [Settled, AwaitSlackUser 1 ''U2''], unhandled := [HttpError]\<rparr>"
    by (simp only: 5)
  note 3 [unfolded g]
  with 1 2 5 6 r n show ?thesis by blast
qed

text \<open>C8 as stated fails for a rejected lookup: the join event of \<open>U8\<close> ends with the
  rejection, nothing is logged and no response is sent.\<close>

theorem rejected_lookup_aborts_counterexample:
  "users_info env0 ''U8'' = Rejected \<and>
   handleEventCallback env0 (event_request ''member_joined_channel'' ''C1'' ''U8'') world1 =
     (Inl HttpError, world1) \<and>
   console world1 = [] \<and> response world1 = None"
  by (simp add: handleEventCallback_def getSlackUser_def event_request_def env0_def
      world1_def world0_def)

subsection \<open>C9: the first event of a new channel\<close>

text \<open>
  C9, amended. For a channel whose mirror group is not listed, the variable \<open>group\<close> of
  \<open>getGroup\<close> holds the promise of the create call, not awaited, whose \<open>id\<close> field is
  undefined; but \<open>getGroup\<close> is an \<open>async\<close> function and its callers await it, so what
  they receive is the created group, which is among the groups of the platform. A join
  event of a non-bot user with an email on such a channel calls \<open>addGroupUser\<close> with the id
  of the created group.
\<close>

theorem new_channel_group_is_resolved:
  assumes "filter (\<lambda>g. group_name g = ''slack-'' @ c) (groups w) = []"
  shows "fst (getGroup_body c w) =
           Promise \<lparr>group_id = fresh_id (map group_id (groups w)), group_name = ''slack-'' @ c\<rparr> \<and>
         field_of group_id (fst (getGroup_body c w)) = None \<and>
         fst (getGroup c w) =
           \<lparr>group_id = fresh_id (map group_id (groups w)), group_name = ''slack-'' @ c\<rparr> \<and>
         fst (getGroup c w) \<in> set (groups (snd (getGroup c w))) \<and>
         (\<not> is_bot u \<and> email u = Some e \<and> e \<noteq> [] \<longrightarrow>
            add_calls (console (snd (syncSlackUsers E (Some u) ''member_joined_channel'' c w))) =
              add_calls (console w) @ [(e, fresh_id (map group_id (groups w)))])"
proof -
  have b: "fst (getGroup_body c w) =
           Promise \<lparr>group_id = fresh_id (map group_id (groups w)), group_name = ''slack-'' @ c\<rparr>"
    using assms by (simp add: getGroup_body_def groups_getAll_def groups_create_def Let_def)
  have g: "fst (getGroup c w) =
           \<lparr>group_id = fresh_id (map group_id (groups w)), group_name = ''slack-'' @ c\<rparr>"
    by (simp add: getGroup_absent [OF assms])
  have s: "groups (snd (getGroup c w)) = groups w @
           [\<lparr>group_id = fresh_id (map group_id (groups w)), group_name = ''slack-'' @ c\<rparr>]"
    by (simp add: getGroup_absent [OF assms])
  show ?thesis
    unfolding b g s by (simp add: syncSlackUsers_joined g)
qed

text \<open>Witness for C9: the first \<open>getGroup\<close> for \<open>C1\<close> in an enterprise without groups.\<close>

theorem new_channel_group_is_resolved_witness:
  "filter (\<lambda>g. group_name g = ''slack-C1'') (groups world0) = [] \<and>
   fst (getGroup_body ''C1'' world0) = Promise \<lparr>group_id = 1, group_name = ''slack-C1''\<rparr> \<and>
   fst (getGroup ''C1'' world0) = \<lparr>group_id = 1, group_name = ''slack-C1''\<rparr> \<and>
   add_calls (console (snd (syncSlackUsers env0 (Some alice) ''member_joined_channel'' ''C1'' world0))) =
     [(''alice@example.com'', 1)]"
proof -
  have a: "filter (\<lambda>g. group_name g = ''slack-'' @ ''C1'') (groups world0) = []"
    by (simp add: world0_def)
  have f: "fresh_id (map group_id (groups world0)) = 1" "add_calls (console world0) = []"
    by (simp_all add: world0_def fresh_id_def)
  have u: "\<not> is_bot alice \<and> email alice = Some ''alice@example.com'' \<and> ''alice@example.com'' \<noteq> []"
    by (simp add: alice_def)
  from new_channel_group_is_resolved [OF a, of alice "''alice@example.com''" env0] f u a
  show ?thesis by simp
qed

text \<open>C9 as stated fails: alice joins \<open>C1\<close> in an enterprise without groups. The group
  \<open>getGroup\<close> hands to \<open>syncSlackUsers\<close> is the created one, its id is 1, and the
  membership is requested and stored for group 1.\<close>

theorem first_event_passes_created_group_counterexample:
  "groups world0 = [] \<and>
   fst (getGroup ''C1'' world0) = \<lparr>group_id = 1, group_name = ''slack-C1''\<rparr> \<and>
   field_of group_id (Plain (fst (getGroup ''C1'' world0))) = Some 1 \<and>
   snd (handleEventCallback env0 (event_request ''member_joined_channel'' ''C1'' ''U1'') world0) =
     world0
       \<lparr>groups := [\<lparr>group_id = 1, group_name = ''slack-C1''\<rparr>],
        memberships := [\<lparr>membership_id = 1, m_user = box_alice, m_group_id = 1\<rparr>],
        requests := [CreateGroup ''slack-C1'' ''Slack channel collaboration group''
                       ''all_managed_users'', AddUser 1 11 MEMBER],
        console := [LogReceived ''member_joined_channel'' ''alice'', LogGetGroup ''C1'',
                    LogAdding ''alice@example.com'' 1, LogAdded ''alice@example.com'' 1],
        response := Some (200, Empty)\<rparr>"
  by (simp add: handleEventCallback_def event_request_def getSlackUser_def env0_def alice_def
      syncSlackUsers_def Let_def case_prod_unfold getGroup_eq addGroupUser_def
      enterprise_getUsers_def users_getGroupMemberships_def groups_addUser_def box_alice_def
      box_bob_def log_def request_def res_send_def fresh_id_def world0_def)

subsection \<open>C10: the mirror group comes first\<close>

text \<open>
  C10. For an event callback whose acting user is found, the groups of the platform after
  the handler are those \<open>getGroup\<close> leaves for the event's channel, whatever the event type
  and whether or not the user is a bot or has an email: the mirror group is created when no
  group of its name is listed, and nothing else touches the groups.
\<close>

theorem group_resolved_before_event_inspected:
  assumes "event req = Some ev"
    and "users_info E (ev_user ev) = Resolved (Some u)"
  shows "groups (snd (handleEventCallback E req w)) =
           (if filter (\<lambda>g. group_name g = ''slack-'' @ ev_channel ev) (groups w) = []
            then groups w @
                   [\<lparr>group_id = fresh_id (map group_id (groups w)),
                     group_name = ''slack-'' @ ev_channel ev\<rparr>]
            else groups w)"
  by (simp only: handleEventCallback_groups [OF assms] syncSlackUsers_groups getGroup_groups)

text \<open>Witness for C10: a \<open>message\<close> event of carol, who has no email, on the new channel
  \<open>C1\<close>: no call of \<open>addGroupUser\<close> or \<open>removeGroupUser\<close>, and the group exists afterwards.\<close>

theorem group_resolved_before_event_inspected_witness:
  "groups (snd (handleEventCallback env0 (event_request ''message'' ''C1'' ''U3'') world0)) =
     [\<lparr>group_id = 1, group_name = ''slack-C1''\<rparr>] \<and>
   groups world0 = [] \<and>
   add_calls (console (snd (handleEventCallback env0
      (event_request ''message'' ''C1'' ''U3'') world0))) = [] \<and>
   remove_calls (console (snd (handleEventCallback env0
      (event_request ''message'' ''C1'' ''U3'') world0))) = []"
proof -
  have ev: "event (event_request ''message'' ''C1'' ''U3'') =
              Some \<lparr>ev_type = ''message'', ev_channel = ''C1'', ev_user = ''U3''\<rparr>"
    by (simp add: event_request_def)
  have u: "users_info env0 (ev_user \<lparr>ev_type = ''message'', ev_channel = ''C1'', ev_user = ''U3''\<rparr>)
             = Resolved (Some carol)"
    by (simp add: env0_def)
  have g: "groups world0 = []" by (simp add: world0_def)
  have c: "console (snd (handleEventCallback env0 (event_request ''message'' ''C1'' ''U3'') world0)) =
             [LogReceived ''message'' ''carol'', LogGetGroup ''C1'']"
    by (simp add: handleEventCallback_console [OF ev u] syncSlackUsers_def Let_def
        case_prod_unfold carol_def world0_def)
  from group_resolved_before_event_inspected [OF ev u, of world0] g c show ?thesis
    by (simp add: fresh_id_def)
qed

end
